theory Spec2Isabelle
  imports Complex_Main "HOL-Library.Sublist"
begin

section \<open>JavaScript values\<close>

text \<open>
  The client (\<open>map/src/services/api.js\<close>, \<open>QueryPanel.js\<close>, \<open>App.js\<close>,
  \<open>ThreeViewer.js\<close>) works on decoded JSON and on React state. A value is one of
  JavaScript's: \<open>undefined\<close>, \<open>null\<close>, a boolean, a number, a string, an array or an
  object (its own properties in order, each name once; a lookup takes the first entry of
  a name). A number is a finite double, modelled by its real value; where the program
  does arithmetic the result is rounded, see the viewer. A string is a
  \<open>char list\<close>: a character stands for a UTF-16 code unit below \<open>0x100\<close>, so the
  strings of the model are the JavaScript strings made of such units.
\<close>

datatype json =
    JUndefined
  | JNull
  | JBool bool
  | JNum real
  | JStr string
  | JArr "json list"
  | JObj "(string \<times> json) list"

text \<open>A thrown value: an \<open>Error\<close> object, of which the program reads \<open>message\<close> only.\<close>

datatype js_error = Error (message: string)

text \<open>The result of a numeric conversion: a finite number, an infinity or \<open>NaN\<close>.\<close>

datatype jsnum = NaN | NegInfinity | Finite real | Infinity

text \<open>\<open>if (v)\<close>, \<open>!v\<close>, \<open>a || b\<close>, \<open>a && b\<close>: JavaScript's truthiness.\<close>

fun truthy :: "json \<Rightarrow> bool" where
  "truthy JUndefined = False"
| "truthy JNull = False"
| "truthy (JBool b) = b"
| "truthy (JNum n) = (n \<noteq> 0)"
| "truthy (JStr s) = (s \<noteq> [])"
| "truthy (JArr xs) = True"
| "truthy (JObj kvs) = True"

definition orElse :: "json \<Rightarrow> json \<Rightarrow> json" where
  \<comment> \<open>\<open>a || b\<close>\<close>
  "orElse a b = (if truthy a then a else b)"

text \<open>
  \<open>v.name\<close> for the property names the program reads (\<open>error\<close>, \<open>data\<close>,
  \<open>matching_ids\<close>, \<open>filter_parsed\<close>, \<open>length\<close>, and a building's fields). Reading a
  property of \<open>null\<close> or \<open>undefined\<close> throws a TypeError (the message is V8's); of the
  built-in properties of arrays and strings only \<open>length\<close> is among the names read; any
  other missing property is \<open>undefined\<close>.
\<close>

definition nullPropertyMessage :: "string \<Rightarrow> string \<Rightarrow> string" where
  "nullPropertyMessage what name =
     ''Cannot read properties of '' @ what @ '' (reading '' @ [CHR 0x27] @ name @ [CHR 0x27] @ '')''"

definition objectField :: "(string \<times> json) list \<Rightarrow> string \<Rightarrow> json" where
  "objectField kvs name = (case map_of kvs name of Some v \<Rightarrow> v | None \<Rightarrow> JUndefined)"

fun getProp :: "json \<Rightarrow> string \<Rightarrow> js_error + json" where
  "getProp JUndefined name = Inl (Error (nullPropertyMessage ''undefined'' name))"
| "getProp JNull name = Inl (Error (nullPropertyMessage ''null'' name))"
| "getProp (JObj kvs) name = Inr (objectField kvs name)"
| "getProp (JArr xs) name = Inr (if name = ''length'' then JNum (real (length xs)) else JUndefined)"
| "getProp (JStr s) name = Inr (if name = ''length'' then JNum (real (length s)) else JUndefined)"
| "getProp (JBool b) name = Inr JUndefined"
| "getProp (JNum n) name = Inr JUndefined"

text \<open>An operation that may throw, followed by what is done with its value.\<close>

definition andThen :: "js_error + 'a \<Rightarrow> ('a \<Rightarrow> js_error + 'b) \<Rightarrow> js_error + 'b" where
  "andThen m f = (case m of Inl err \<Rightarrow> Inl err | Inr v \<Rightarrow> f v)"

text \<open>
  ECMAScript's \<open>ToNumber\<close>, which \<open>>\<close>, \<open>Math.min\<close> and \<open>Math.max\<close> apply to their
  operands. The conversion of a string (\<open>StringToNumber\<close>) is the runtime's and is taken
  as a parameter. An object or an array is first converted to a primitive, through
  \<open>valueOf\<close> and \<open>toString\<close>. An own property \<open>toString\<close> of a decoded object hides the
  inherited method and is no function, and then the conversion throws a TypeError (the
  message is V8's); an array prints its elements, so it throws when one of them does.
  Otherwise an array converts through its string: the empty array is \<open>0\<close>, a
  one-element array converts as its element's string does (\<open>inArr\<close>: \<open>null\<close> and
  \<open>undefined\<close> print as the empty string, a boolean as a word), a longer one has a comma
  and is \<open>NaN\<close>; an object prints as \<open>[object Object]\<close> and is \<open>NaN\<close>.
\<close>

fun hidesToString :: "json \<Rightarrow> bool" where
  "hidesToString (JObj kvs) = (map_of kvs ''toString'' \<noteq> None)"
| "hidesToString (JArr xs) = list_ex hidesToString xs"
| "hidesToString v = False"

fun convertedNumber :: "(string \<Rightarrow> jsnum) \<Rightarrow> bool \<Rightarrow> json \<Rightarrow> jsnum" where
  "convertedNumber s2n inArr (JNum n) = Finite n"
| "convertedNumber s2n inArr (JStr s) = s2n s"
| "convertedNumber s2n inArr JUndefined = (if inArr then Finite 0 else NaN)"
| "convertedNumber s2n inArr JNull = Finite 0"
| "convertedNumber s2n inArr (JBool b) = (if inArr then NaN else Finite (if b then 1 else 0))"
| "convertedNumber s2n inArr (JArr xs) =
     (case xs of [] \<Rightarrow> Finite 0 | [x] \<Rightarrow> convertedNumber s2n True x | _ \<Rightarrow> NaN)"
| "convertedNumber s2n inArr (JObj kvs) = NaN"

definition toNumber :: "(string \<Rightarrow> jsnum) \<Rightarrow> json \<Rightarrow> js_error + jsnum" where
  "toNumber s2n v =
     (if hidesToString v then Inl (Error ''Cannot convert object to primitive value'')
      else Inr (convertedNumber s2n False v))"

definition greaterThanZero :: "(string \<Rightarrow> jsnum) \<Rightarrow> json \<Rightarrow> js_error + bool" where
  \<comment> \<open>\<open>v > 0\<close>: a comparison with \<open>NaN\<close> is false\<close>
  "greaterThanZero s2n v =
     andThen (toNumber s2n v)
       (\<lambda>n. Inr (case n of Finite x \<Rightarrow> 0 < x | Infinity \<Rightarrow> True | _ \<Rightarrow> False))"

text \<open>Whether a string occurs in another as a contiguous part.\<close>

fun isSubstring :: "string \<Rightarrow> string \<Rightarrow> bool" where
  "isSubstring needle [] = (needle = [])"
| "isSubstring needle (c # cs) = (prefix needle (c # cs) \<or> isSubstring needle cs)"

text \<open>A number in a template literal; the program prints HTTP status codes only.\<close>

fun showNat :: "nat \<Rightarrow> string" where
  "showNat n =
     (if n < 10 then [''0123456789'' ! n]
      else showNat (n div 10) @ [''0123456789'' ! (n mod 10)])"

section \<open>The API client (\<open>map/src/services/api.js\<close>)\<close>

text \<open>
  What the module takes from its surroundings: the build-time \<open>REACT_APP_API_BASE\<close>
  (\<open>''''\<close> when unset), the browser's \<open>fetch\<close>, and the runtime's string-to-number
  conversion. \<open>fetch\<close> either rejects with an error or resolves to a response;
  \<open>response.json()\<close> either rejects (the body is not JSON) or resolves to the decoded
  value. The request body is kept as the value handed to \<open>JSON.stringify\<close>.
  \<open>console.error\<close> is not modelled.
\<close>

record request =
  http_method :: string
  headers :: "(string \<times> string) list"
  body :: json

record response =
  ok :: bool
  status :: nat
  json_body :: "js_error + json"

record env =
  API_BASE :: string
  fetch :: "string \<Rightarrow> request option \<Rightarrow> js_error + response"
  StringToNumber :: "string \<Rightarrow> jsnum"

definition buildUrl :: "env \<Rightarrow> string \<Rightarrow> string" where
  "buildUrl e path = API_BASE e @ path"

definition httpError :: "response \<Rightarrow> js_error" where
  \<comment> \<open>\<open>new Error\<close> of the template \<open>HTTP error! status: ${response.status}\<close>\<close>
  "httpError r = Error (''HTTP error! status: '' @ showNat (status r))"

text \<open>\<open>fetchBuildings\<close>: the body of the \<open>try\<close> block, then the function with its \<open>catch\<close>.\<close>

definition fetchBuildings_try :: "env \<Rightarrow> js_error + json" where
  "fetchBuildings_try e =
     (case fetch e (buildUrl e ''/api/buildings'') None of
        Inl err \<Rightarrow> Inl err
      | Inr r \<Rightarrow>
          if \<not> ok r then Inl (httpError r)
          else (case json_body r of
                  Inl err \<Rightarrow> Inl err
                | Inr data \<Rightarrow>
                    (case getProp data ''error'' of
                       Inl err \<Rightarrow> Inl err
                     | Inr dataError \<Rightarrow>
                         if truthy dataError then Inr (JArr [])
                         else (case getProp data ''data'' of
                                 Inl err \<Rightarrow> Inl err
                               | Inr d \<Rightarrow> Inr (orElse d (JArr []))))))"

definition fetchBuildings :: "env \<Rightarrow> js_error + json" where
  "fetchBuildings e =
     (case fetchBuildings_try e of
        Inr v \<Rightarrow> Inr v
      | Inl err \<Rightarrow> Inr (JArr []))"

text \<open>
  The outcome of the listing request, read off the surroundings: the
  decoded body of an OK response, and whether the listing failed (no such body, a body
  whose properties cannot be read, or a truthy \<open>error\<close> in it).
\<close>

definition listingData :: "env \<Rightarrow> json option" where
  "listingData e =
     (case fetch e (buildUrl e ''/api/buildings'') None of
        Inl err \<Rightarrow> None
      | Inr r \<Rightarrow>
          if \<not> ok r then None
          else (case json_body r of Inl err \<Rightarrow> None | Inr data \<Rightarrow> Some data))"

definition listingFailed :: "env \<Rightarrow> bool" where
  "listingFailed e =
     (case listingData e of
        None \<Rightarrow> True
      | Some data \<Rightarrow>
          (case getProp data ''error'' of Inl err \<Rightarrow> True | Inr dataError \<Rightarrow> truthy dataError))"

record query_result =
  matching_ids :: json
  filter_parsed :: json
  error :: json

definition queryRequest :: "string \<Rightarrow> json \<Rightarrow> request" where
  \<comment> \<open>\<open>body = { query }\<close>, with \<open>api_key\<close> added when \<open>apiKey\<close> is truthy\<close>
  "queryRequest query apiKey =
     \<lparr>http_method = ''POST'',
      headers = [(''Content-Type'', ''application/json'')],
      body = JObj ((''query'', JStr query) # (if truthy apiKey then [(''api_key'', apiKey)] else []))\<rparr>"

definition queryBuildings_try :: "env \<Rightarrow> string \<Rightarrow> json \<Rightarrow> js_error + query_result" where
  "queryBuildings_try e query apiKey =
     (case fetch e (buildUrl e ''/api/query'') (Some (queryRequest query apiKey)) of
        Inl err \<Rightarrow> Inl err
      | Inr r \<Rightarrow>
          if \<not> ok r then Inl (httpError r)
          else (case json_body r of
                  Inl err \<Rightarrow> Inl err
                | Inr data \<Rightarrow>
                    (case getProp data ''error'' of
                       Inl err \<Rightarrow> Inl err
                     | Inr dataError \<Rightarrow>
                         if truthy dataError
                         then Inr \<lparr>matching_ids = JArr [], filter_parsed = JNull, error = dataError\<rparr>
                         else (case getProp data ''matching_ids'' of
                                 Inl err \<Rightarrow> Inl err
                               | Inr ids \<Rightarrow>
                                   (case getProp data ''filter_parsed'' of
                                      Inl err \<Rightarrow> Inl err
                                    | Inr fp \<Rightarrow>
                                        Inr \<lparr>matching_ids = orElse ids (JArr []),
                                             filter_parsed = fp,
                                             error = JNull\<rparr>)))))"

definition queryBuildings :: "env \<Rightarrow> string \<Rightarrow> json \<Rightarrow> js_error + query_result" where
  "queryBuildings e query apiKey =
     (case queryBuildings_try e query apiKey of
        Inr res \<Rightarrow> Inr res
      | Inl err \<Rightarrow>
          Inr \<lparr>matching_ids = JArr [], filter_parsed = JNull, error = JStr (message err)\<rparr>)"

text \<open>
  The outcome of the query's request, read off the surroundings: the call succeeded when
  \<open>fetch\<close> resolved with an OK status, the body decoded to a value whose properties can
  be read, and that value carries no (truthy) \<open>error\<close>. \<open>responseData\<close> is the decoded
  body of such a response.
\<close>

definition responseData :: "env \<Rightarrow> string \<Rightarrow> json \<Rightarrow> json option" where
  "responseData e query apiKey =
     (case fetch e (buildUrl e ''/api/query'') (Some (queryRequest query apiKey)) of
        Inl err \<Rightarrow> None
      | Inr r \<Rightarrow>
          if \<not> ok r then None
          else (case json_body r of Inl err \<Rightarrow> None | Inr data \<Rightarrow> Some data))"

definition succeeded :: "env \<Rightarrow> string \<Rightarrow> json \<Rightarrow> bool" where
  "succeeded e query apiKey =
     (case responseData e query apiKey of
        None \<Rightarrow> False
      | Some data \<Rightarrow>
          (case getProp data ''error'' of Inl err \<Rightarrow> False | Inr dataError \<Rightarrow> \<not> truthy dataError))"

definition responseField :: "env \<Rightarrow> string \<Rightarrow> json \<Rightarrow> string \<Rightarrow> json" where
  \<comment> \<open>a property of the decoded body, \<open>undefined\<close> where there is none to read\<close>
  "responseField e query apiKey name =
     (case responseData e query apiKey of
        None \<Rightarrow> JUndefined
      | Some data \<Rightarrow> (case getProp data name of Inl err \<Rightarrow> JUndefined | Inr v \<Rightarrow> v))"

definition isArray :: "json \<Rightarrow> bool" where
  "isArray v = (case v of JArr xs \<Rightarrow> True | _ \<Rightarrow> False)"

text \<open>Surroundings for concrete runs: every request resolves to \<open>r\<close>, or rejects with \<open>err\<close>.\<close>

definition respondsWith :: "response \<Rightarrow> env" where
  "respondsWith r = \<lparr>API_BASE = [], fetch = (\<lambda>url init. Inr r), StringToNumber = (\<lambda>s. NaN)\<rparr>"

definition rejectsWith :: "js_error \<Rightarrow> env" where
  "rejectsWith err = \<lparr>API_BASE = [], fetch = (\<lambda>url init. Inl err), StringToNumber = (\<lambda>s. NaN)\<rparr>"

definition okJson :: "json \<Rightarrow> response" where
  "okJson v = \<lparr>ok = True, status = 200, json_body = Inr v\<rparr>"

section \<open>The query panel (\<open>QueryPanel.js\<close>)\<close>

text \<open>
  The component's state (\<open>useState\<close>): \<open>query\<close>, \<open>loading\<close>, \<open>lastResult\<close>
  (\<open>None\<close> is \<open>null\<close>) and \<open>error\<close>. A handler returns the state it leaves and the
  arguments it passed to the \<open>onQueryResult\<close> prop, one entry per call, in order.
\<close>

record panel_state =
  query :: string
  loading :: bool
  lastResult :: "query_result option"
  panel_error :: json

text \<open>
  \<open>String.prototype.trim\<close> strips ECMAScript's \<open>WhiteSpace\<close> and \<open>LineTerminator\<close>
  code points from both ends: TAB, VT, FF, the space separators of Unicode (SP, NBSP,
  \<open>U+1680\<close>, \<open>U+2000\<close> to \<open>U+200A\<close>, \<open>U+202F\<close>, \<open>U+205F\<close>, \<open>U+3000\<close>),
  \<open>U+FEFF\<close>, and LF, CR, \<open>U+2028\<close>, \<open>U+2029\<close>. \<open>isWhiteSpace\<close> is that set, by
  code unit; a string of the model can hold the seven of them below \<open>0x100\<close>.
\<close>

definition isWhiteSpace :: "nat \<Rightarrow> bool" where
  "isWhiteSpace u =
     (u \<in> set [0x09, 0x0A, 0x0B, 0x0C, 0x0D, 0x20, 0xA0, 0x1680,
                0x2000, 0x2001, 0x2002, 0x2003, 0x2004, 0x2005, 0x2006, 0x2007, 0x2008, 0x2009,
                0x200A, 0x2028, 0x2029, 0x202F, 0x205F, 0x3000, 0xFEFF])"

definition trim :: "string \<Rightarrow> string" where
  "trim s =
     rev (dropWhile (\<lambda>c. isWhiteSpace (of_char c))
            (rev (dropWhile (\<lambda>c. isWhiteSpace (of_char c)) s)))"

definition handleSubmit :: "env \<Rightarrow> panel_state \<Rightarrow> js_error + (panel_state \<times> json list)" where
  "handleSubmit e st =
     (if trim (query st) = [] then Inr (st, [])
      else
        let st1 = st\<lparr>loading := True, panel_error := JNull\<rparr> in
        case queryBuildings e (query st) JUndefined of
          Inl err \<Rightarrow> Inl err
        | Inr result \<Rightarrow>
            let st2 = st1\<lparr>loading := False\<rparr> in
            if truthy (error result)
            then Inr (st2\<lparr>panel_error := error result, lastResult := None\<rparr>, [])
            else Inr (st2\<lparr>lastResult := Some result\<rparr>, [matching_ids result]))"

definition handleClear :: "panel_state \<Rightarrow> panel_state \<times> json list" where
  "handleClear st = (st\<lparr>query := [], lastResult := None, panel_error := JNull\<rparr>, [JArr []])"

section \<open>The application (\<open>App.js\<close>)\<close>

record app_state =
  buildings :: json
  highlightedIds :: json
  selectedBuilding :: json
  app_loading :: bool
  app_error :: json

definition initialApp :: app_state where
  "initialApp =
     \<lparr>buildings = JArr [], highlightedIds = JArr [], selectedBuilding = JNull,
      app_loading = True, app_error = JNull\<rparr>"

definition handleQueryResult :: "app_state \<Rightarrow> json \<Rightarrow> app_state" where
  "handleQueryResult st matchingIds = st\<lparr>highlightedIds := matchingIds\<rparr>"

definition handleBuildingClick :: "app_state \<Rightarrow> json \<Rightarrow> app_state" where
  "handleBuildingClick st building = st\<lparr>selectedBuilding := building\<rparr>"

text \<open>
  \<open>loadBuildings\<close>, the effect run on mount. \<open>data.length > 0\<close> reads the property,
  converts it to a number and compares; nothing catches what these throw.
\<close>

definition loadBuildings :: "env \<Rightarrow> app_state \<Rightarrow> js_error + app_state" where
  "loadBuildings e st =
     (let st1 = st\<lparr>app_loading := True\<rparr> in
      case fetchBuildings e of
        Inl err \<Rightarrow> Inl err
      | Inr data \<Rightarrow>
          (case getProp data ''length'' of
             Inl err \<Rightarrow> Inl err
           | Inr len \<Rightarrow>
               (case greaterThanZero (StringToNumber e) len of
                  Inl err \<Rightarrow> Inl err
                | Inr nonEmpty \<Rightarrow>
                    let st2 = (if nonEmpty
                               then st1\<lparr>buildings := data, app_error := JNull\<rparr>
                               else st1\<lparr>app_error := JStr ''Failed to load buildings''\<rparr>)
                    in Inr (st2\<lparr>app_loading := False\<rparr>))))"

text \<open>
  The panel is mounted with \<open>onQueryResult={handleQueryResult}\<close>: the application's
  state after a handler's calls have been delivered.
\<close>

definition deliver :: "app_state \<Rightarrow> json list \<Rightarrow> app_state" where
  "deliver st calls = foldl handleQueryResult st calls"






section \<open>The viewer (\<open>ThreeViewer.js\<close>)\<close>

definition COLOR_DEFAULT :: nat where "COLOR_DEFAULT = 0x6699cc"
definition COLOR_HIGHLIGHTED :: nat where "COLOR_HIGHLIGHTED = 0xffaa00"
definition COLOR_SELECTED :: nat where "COLOR_SELECTED = 0xff0000"
definition COLOR_DIMMED :: nat where "COLOR_DIMMED = 0x445566"








text \<open>
  The highlight effect. \<open>buildingMeshesRef.current\<close> is an object from building ids
  (property keys, hence strings) to meshes, listed as \<open>Object.entries\<close> lists it; of a
  mesh the effect touches \<open>material.color\<close> only. The props may hold any value:
  \<open>selectedId\<close> is \<open>selectedBuilding?.id\<close>, \<open>highlightedIds\<close> is the application's
  state, which starts as the empty array and takes what \<open>onQueryResult\<close> is called with.
  \<open>===\<close> compares a value with a string key: equal exactly when the value is that
  string. \<open>highlightedIds.includes(buildingId)\<close> is \<open>Array.prototype.includes\<close> on an
  array (it compares in the same way), \<open>String.prototype.includes\<close> on a string (a
  substring test), and a TypeError on any other truthy value, which has no such method.
  When it throws, the effect stops: the meshes not yet reached keep their colour.
\<close>

record mesh =
  userData_building :: json
  material_color :: nat

definition jsIncludes :: "json \<Rightarrow> string \<Rightarrow> js_error + bool" where
  "jsIncludes v buildingId =
     (case v of
        JArr xs \<Rightarrow> Inr (JStr buildingId \<in> set xs)
      | JStr s \<Rightarrow> Inr (isSubstring buildingId s)
      | _ \<Rightarrow> Inl (Error ''highlightedIds.includes is not a function''))"

definition highlightColor :: "(string \<Rightarrow> jsnum) \<Rightarrow> json \<Rightarrow> json \<Rightarrow> string \<Rightarrow> js_error + nat" where
  "highlightColor s2n selectedId highlighted buildingId =
     (if selectedId = JStr buildingId then Inr COLOR_SELECTED
      else
        andThen (if truthy highlighted then jsIncludes highlighted buildingId else Inr False)
          (\<lambda>found.
             if found then Inr COLOR_HIGHLIGHTED
             else
               andThen (if truthy highlighted
                        then andThen (getProp highlighted ''length'') (greaterThanZero s2n)
                        else Inr False)
                 (\<lambda>nonEmpty. Inr (if nonEmpty then COLOR_DIMMED else COLOR_DEFAULT))))"

fun updateColors ::
  "(string \<Rightarrow> jsnum) \<Rightarrow> json \<Rightarrow> json \<Rightarrow> (string \<times> mesh) list
     \<Rightarrow> (string \<times> mesh) list \<times> js_error option" where
  "updateColors s2n selectedId highlighted [] = ([], None)"
| "updateColors s2n selectedId highlighted ((buildingId, m) # entries) =
     (case highlightColor s2n selectedId highlighted buildingId of
        Inl err \<Rightarrow> ((buildingId, m) # entries, Some err)
      | Inr color \<Rightarrow>
          (case updateColors s2n selectedId highlighted entries of
             (rest, thrown) \<Rightarrow> ((buildingId, m\<lparr>material_color := color\<rparr>) # rest, thrown)))"

text \<open>
  The colour the claimed precedence gives the mesh of id \<open>k\<close> when \<open>highlightedIds\<close> is
  an array or falsy.
\<close>

definition colorOf :: "json \<Rightarrow> json \<Rightarrow> string \<Rightarrow> nat" where
  "colorOf sel hl k =
     (if sel = JStr k then COLOR_SELECTED
      else if (case hl of JArr ids \<Rightarrow> JStr k \<in> set ids | _ \<Rightarrow> False) then COLOR_HIGHLIGHTED
      else if (case hl of JArr ids \<Rightarrow> ids \<noteq> [] | _ \<Rightarrow> False) then COLOR_DIMMED
      else COLOR_DEFAULT)"

section \<open>The data model\<close>

text \<open>
  Modelled from the spec: the backend that fuses the records and answers the queries
  (\<open>server.py\<close>, \<open>data_fetcher.py\<close>, \<open>llm_processor.py\<close>) is not among the sources. The
  records follow section 3 field by field. A point is a \<open>[longitude, latitude]\<close> pair; a
  footprint is kept as the decoded ring it arrived as.
\<close>

type_synonym point = "real \<times> real"

record Building =
  building_id :: string
  address :: string
  latitude :: real
  longitude :: real
  height :: real
  land_use_designation :: string
  assessed_value :: nat
  year_of_construction :: string
  footprint :: "json list"

datatype Attribute = Height | LandUseDesignation | AssessedValue | Address | YearOfConstruction

datatype Operator = Gt | Lt | Eq | Contains

datatype FilterValue = NumV real | StrV string

record FilterSpec =
  attribute :: Attribute
  operator :: Operator
  operand :: FilterValue

fun attributeName :: "Attribute \<Rightarrow> string" where
  "attributeName Height = ''height''"
| "attributeName LandUseDesignation = ''land_use_designation''"
| "attributeName AssessedValue = ''assessed_value''"
| "attributeName Address = ''address''"
| "attributeName YearOfConstruction = ''year_of_construction''"

fun operatorSymbol :: "Operator \<Rightarrow> string" where
  "operatorSymbol Gt = ''>''"
| "operatorSymbol Lt = ''<''"
| "operatorSymbol Eq = ''==''"
| "operatorSymbol Contains = ''contains''"

section \<open>The fusion engine\<close>

text \<open>
  Modelled from the spec: \<open>fuse\<close> (section 4.1) lives in the backend, which is not among
  the sources. The two raw record types follow section 3; an assessment record's fields
  carry the prefix \<open>src_\<close> where a building has a field of the same name. An elevation
  may be missing. What the spec leaves open is a parameter: the constant \<open>MIN_HEIGHT\<close>,
  the maximum matching distance, the great-circle (haversine) distance and the
  containment test.
\<close>

record FootprintRecord =
  struct_id :: string
  polygon :: "json list"
  roof_elevation :: "real option"
  ground_elevation :: "real option"

record AssessmentRecord =
  src_address :: string
  multipolygon :: "point list list"
  src_assessed_value :: nat
  src_land_use_designation :: string
  src_year_of_construction :: string

record geometry =
  MIN_HEIGHT :: real
  MAX_DISTANCE :: real
  haversine :: "point \<Rightarrow> point \<Rightarrow> real"
  inside :: "point list list \<Rightarrow> point \<Rightarrow> bool"

text \<open>
  Step 6: a polygon with fewer than three vertices or a vertex that is not a pair of
  numbers is a geometry error (\<open>None\<close>), and its record is dropped before matching.
\<close>

fun parseVertex :: "json \<Rightarrow> point option" where
  "parseVertex (JArr [JNum lon, JNum lat]) = Some (lon, lat)"
| "parseVertex v = None"

definition parsePolygon :: "json list \<Rightarrow> point list option" where
  \<comment> \<open>Modelled from the spec: section 4.1 step 6 (geometry validation, in the backend)\<close>
  "parsePolygon ring =
     (case those (map parseVertex ring) of
        None \<Rightarrow> None
      | Some pts \<Rightarrow> if length pts < 3 then None else Some pts)"

definition validFootprint :: "FootprintRecord \<Rightarrow> bool" where
  "validFootprint f = (parsePolygon (polygon f) \<noteq> None)"

text \<open>Step 1: the centroid (the arithmetic mean of the vertices) and the derived height.\<close>

definition centroid :: "point list \<Rightarrow> point" where
  \<comment> \<open>Modelled from the spec: section 4.1 step 1, the arithmetic mean of the ring's vertices\<close>
  "centroid pts =
     (sum_list (map fst pts) / real (length pts), sum_list (map snd pts) / real (length pts))"

definition deriveHeight :: "geometry \<Rightarrow> FootprintRecord \<Rightarrow> real" where
  \<comment> \<open>Modelled from the spec: section 4.1 step 1, \<open>max(roof_elevation - ground_elevation, MIN_HEIGHT)\<close>\<close>
  "deriveHeight g f =
     (case (roof_elevation f, ground_elevation f) of
        (Some roof, Some ground) \<Rightarrow> max (roof - ground) (MIN_HEIGHT g)
      | _ \<Rightarrow> MIN_HEIGHT g)"

text \<open>
  Steps 2 to 4. Assessment records are named by their position in the input sequence
  (insertion order); \<open>used\<close> holds those already consumed. The candidates are the
  records not yet consumed, in insertion order. The primary match is the candidate whose
  multipolygon contains the centroid, when there is exactly one. The fallback scans the
  candidates in insertion order and keeps the nearest one within \<open>MAX_DISTANCE\<close>,
  replacing it only by a strictly nearer one.
\<close>

definition available :: "nat list \<Rightarrow> AssessmentRecord list \<Rightarrow> nat list" where
  "available used recs = filter (\<lambda>i. i \<notin> set used) [0..<length recs]"

definition distanceTo :: "geometry \<Rightarrow> AssessmentRecord list \<Rightarrow> point \<Rightarrow> nat \<Rightarrow> real option" where
  "distanceTo g recs c i =
     (case concat (multipolygon (recs ! i)) of
        [] \<Rightarrow> None
      | p # ps \<Rightarrow> Some (haversine g c (centroid (p # ps))))"

fun nearest ::
  "(nat \<Rightarrow> real option) \<Rightarrow> real \<Rightarrow> nat list \<Rightarrow> (nat \<times> real) option \<Rightarrow> (nat \<times> real) option" where
  \<comment> \<open>Modelled from the spec: section 4.1 step 3, the nearest candidate within the limit, ties to the earlier one\<close>
  "nearest distOf limit [] best = best"
| "nearest distOf limit (i # rest) best =
     nearest distOf limit rest
       (case distOf i of
          None \<Rightarrow> best
        | Some d \<Rightarrow>
            if limit < d then best
            else (case best of
                    None \<Rightarrow> Some (i, d)
                  | Some (j, dj) \<Rightarrow> if d < dj then Some (i, d) else best))"

definition proximityMatch ::
  "geometry \<Rightarrow> AssessmentRecord list \<Rightarrow> nat list \<Rightarrow> point \<Rightarrow> nat option" where
  \<comment> \<open>Modelled from the spec: section 4.1 step 3, the proximity fallback\<close>
  "proximityMatch g recs used c =
     map_option fst (nearest (distanceTo g recs c) (MAX_DISTANCE g) (available used recs) None)"

definition findMatch ::
  "geometry \<Rightarrow> AssessmentRecord list \<Rightarrow> nat list \<Rightarrow> point \<Rightarrow> nat option" where
  \<comment> \<open>Modelled from the spec: section 4.1 steps 2 and 3, containment first, then the fallback\<close>
  "findMatch g recs used c =
     (case filter (\<lambda>i. inside g (multipolygon (recs ! i)) c) (available used recs) of
        [i] \<Rightarrow> Some i
      | _ \<Rightarrow> proximityMatch g recs used c)"

text \<open>Step 5: the building of a footprint, with the documented defaults when unmatched.\<close>

definition mkBuilding ::
  "geometry \<Rightarrow> FootprintRecord \<Rightarrow> point \<Rightarrow> AssessmentRecord option \<Rightarrow> Building" where
  \<comment> \<open>Modelled from the spec: section 4.1 step 5 and the \<open>Building\<close> of section 3\<close>
  "mkBuilding g f c m =
     \<lparr>building_id = struct_id f,
      address = (case m of None \<Rightarrow> [] | Some a \<Rightarrow> src_address a),
      latitude = snd c,
      longitude = fst c,
      height = deriveHeight g f,
      land_use_designation = (case m of None \<Rightarrow> [] | Some a \<Rightarrow> src_land_use_designation a),
      assessed_value = (case m of None \<Rightarrow> 0 | Some a \<Rightarrow> src_assessed_value a),
      year_of_construction = (case m of None \<Rightarrow> [] | Some a \<Rightarrow> src_year_of_construction a),
      footprint = polygon f\<rparr>"

fun fuseLoop ::
  "geometry \<Rightarrow> AssessmentRecord list \<Rightarrow> nat list \<Rightarrow> FootprintRecord list \<Rightarrow> Building list" where
  \<comment> \<open>Modelled from the spec: section 4.1 step 4, first come, greedy\<close>
  "fuseLoop g recs used [] = []"
| "fuseLoop g recs used (f # fs) =
     (case parsePolygon (polygon f) of
        None \<Rightarrow> fuseLoop g recs used fs
      | Some ring \<Rightarrow>
          (case findMatch g recs used (centroid ring) of
             None \<Rightarrow> mkBuilding g f (centroid ring) None # fuseLoop g recs used fs
           | Some i \<Rightarrow>
               mkBuilding g f (centroid ring) (Some (recs ! i)) # fuseLoop g recs (i # used) fs))"

definition fuse ::
  "geometry \<Rightarrow> FootprintRecord list \<Rightarrow> AssessmentRecord list \<Rightarrow> Building list" where
  \<comment> \<open>Modelled from the spec: the contract \<open>fuse\<close> of section 4.1 (in the backend's \<open>data_fetcher.py\<close>)\<close>
  "fuse g footprints assessments = fuseLoop g assessments [] footprints"

section \<open>The filter engine\<close>

text \<open>
  Modelled from the spec: \<open>parseCompletion\<close> (section 4.2, part B) lives in the backend,
  which is not among the sources. The JSON decoder is the runtime library's and is a
  parameter (\<open>None\<close>: the text does not decode).
\<close>

datatype ParseError = MalformedJson | InvalidAttribute | InvalidOperator | TypeMismatch

definition attributeWhitelist :: "Attribute list" where
  "attributeWhitelist = [Height, LandUseDesignation, AssessedValue, Address, YearOfConstruction]"

definition operatorWhitelist :: "Operator list" where
  "operatorWhitelist = [Gt, Lt, Eq, Contains]"

definition parseAttribute :: "string \<Rightarrow> Attribute option" where
  "parseAttribute s = find (\<lambda>a. attributeName a = s) attributeWhitelist"

definition parseOperator :: "string \<Rightarrow> Operator option" where
  "parseOperator s = find (\<lambda>p. operatorSymbol p = s) operatorWhitelist"

text \<open>
  Step 1: the first balanced object substring. \<open>closeAt depth cs\<close> is the text up to the
  brace that closes \<open>depth\<close> open ones; the scan starts at each opening brace in turn and
  stops at the first one that closes. Braces are counted wherever they stand.
\<close>

fun closeAt :: "nat \<Rightarrow> string \<Rightarrow> string option" where
  "closeAt depth [] = None"
| "closeAt depth (c # cs) =
     (if c = CHR 0x7D
      then (if depth \<le> 1 then Some [c] else map_option ((#) c) (closeAt (depth - 1) cs))
      else map_option ((#) c) (closeAt (if c = CHR 0x7B then Suc depth else depth) cs))"

fun extractObject :: "string \<Rightarrow> string option" where
  \<comment> \<open>Modelled from the spec: section 4.2 part B step 1\<close>
  "extractObject [] = None"
| "extractObject (c # cs) =
     (if c = CHR 0x7B
      then (case closeAt 1 cs of Some rest \<Rightarrow> Some (c # rest) | None \<Rightarrow> extractObject cs)
      else extractObject cs)"

text \<open>
  Step 4: the operand's expected type is numeric for a comparison (\<open>>\<close>, \<open><\<close>, \<open>==\<close>)
  on \<open>height\<close>, \<open>assessed_value\<close> or \<open>year_of_construction\<close>, and string otherwise. A
  number is read from a number or from a string of decimal digits; a string from a string
  or from a natural number.
\<close>

definition digitValue :: "char \<Rightarrow> nat option" where
  "digitValue c = map_of (zip ''0123456789'' [0, 1, 2, 3, 4, 5, 6, 7, 8, 9]) c"

definition parseNumber :: "string \<Rightarrow> real option" where
  "parseNumber s =
     (if s = [] then None
      else map_option (\<lambda>ds. real (foldl (\<lambda>acc d. 10 * acc + d) 0 ds)) (those (map digitValue s)))"

definition numericAttribute :: "Attribute \<Rightarrow> bool" where
  "numericAttribute a = (a = Height \<or> a = AssessedValue \<or> a = YearOfConstruction)"

definition expectsNumber :: "Attribute \<Rightarrow> Operator \<Rightarrow> bool" where
  "expectsNumber a p = (numericAttribute a \<and> p \<noteq> Contains)"

fun coerceNumber :: "json \<Rightarrow> FilterValue option" where
  "coerceNumber (JNum n) = Some (NumV n)"
| "coerceNumber (JStr s) = map_option NumV (parseNumber s)"
| "coerceNumber v = None"

fun coerceString :: "json \<Rightarrow> FilterValue option" where
  "coerceString (JStr s) = Some (StrV s)"
| "coerceString (JNum n) =
     (if 0 \<le> n \<and> n = of_int \<lfloor>n\<rfloor> then Some (StrV (showNat (nat \<lfloor>n\<rfloor>))) else None)"
| "coerceString v = None"

definition coerce :: "Attribute \<Rightarrow> Operator \<Rightarrow> json \<Rightarrow> FilterValue option" where
  \<comment> \<open>Modelled from the spec: section 4.2 part B step 4\<close>
  "coerce a p v = (if expectsNumber a p then coerceNumber v else coerceString v)"

text \<open>
  \<open>parseCompletion\<close>: extract, decode, validate the attribute, then the operator, then
  coerce the operand. A missing or non-string \<open>attribute\<close> (\<open>operator\<close>) is not in the
  whitelist; a missing \<open>value\<close> cannot be coerced.
\<close>

definition validateFilter :: "(string \<times> json) list \<Rightarrow> ParseError + FilterSpec" where
  \<comment> \<open>Modelled from the spec: section 4.2 part B steps 3 and 4\<close>
  "validateFilter kvs =
     (case objectField kvs ''attribute'' of
        JStr a \<Rightarrow>
          (case parseAttribute a of
             None \<Rightarrow> Inl InvalidAttribute
           | Some attr \<Rightarrow>
               (case objectField kvs ''operator'' of
                  JStr p \<Rightarrow>
                    (case parseOperator p of
                       None \<Rightarrow> Inl InvalidOperator
                     | Some oper \<Rightarrow>
                         (case coerce attr oper (objectField kvs ''value'') of
                            None \<Rightarrow> Inl TypeMismatch
                          | Some v \<Rightarrow> Inr \<lparr>attribute = attr, operator = oper, operand = v\<rparr>))
                | _ \<Rightarrow> Inl InvalidOperator))
      | _ \<Rightarrow> Inl InvalidAttribute)"

definition parseCompletion :: "(string \<Rightarrow> json option) \<Rightarrow> string \<Rightarrow> ParseError + FilterSpec" where
  \<comment> \<open>Modelled from the spec: the contract \<open>parseCompletion\<close> of section 4.2 part B (in the backend's \<open>llm_processor.py\<close>)\<close>
  "parseCompletion decode raw =
     (case extractObject raw of
        None \<Rightarrow> Inl MalformedJson
      | Some text \<Rightarrow>
          (case decode text of
             Some (JObj kvs) \<Rightarrow> validateFilter kvs
           | _ \<Rightarrow> Inl MalformedJson))"

section \<open>Concrete inputs\<close>

text \<open>
  Inputs for the concrete runs below. The distance of the example geometry is the
  taxicab distance, which stands in for the haversine distance; nothing is contained in
  anything.
\<close>

definition exampleGeometry :: geometry where
  "exampleGeometry =
     \<lparr>MIN_HEIGHT = 1 / 2, MAX_DISTANCE = 10,
      haversine = (\<lambda>p q. \<bar>fst p - fst q\<bar> + \<bar>snd p - snd q\<bar>),
      inside = (\<lambda>mp p. False)\<rparr>"

definition exampleAssessment :: "string \<Rightarrow> point \<Rightarrow> AssessmentRecord" where
  "exampleAssessment a p =
     \<lparr>src_address = a, multipolygon = [[p]], src_assessed_value = 2900000,
      src_land_use_designation = ''DC'', src_year_of_construction = ''1961''\<rparr>"

definition exampleFootprint :: FootprintRecord where
  "exampleFootprint =
     \<lparr>struct_id = ''1072734'',
      polygon = [JArr [JNum 0, JNum 0], JArr [JNum 3, JNum 0], JArr [JNum 0, JNum 3]],
      roof_elevation = Some 10, ground_elevation = Some 12\<rparr>"

text \<open>
  The runs below convert no string to a number and format no object, so any conversion
  and any message serve. An example of a building as it reaches the client, with the
  nine fields.
\<close>

definition noNumeral :: "string \<Rightarrow> jsnum" where
  "noNumeral s = NaN"



definition exampleMeshes :: "(string \<times> mesh) list" where
  "exampleMeshes =
     [(''a'', \<lparr>userData_building = JNull, material_color = COLOR_DIMMED\<rparr>),
      (''b'', \<lparr>userData_building = JNull, material_color = COLOR_DIMMED\<rparr>),
      (''c'', \<lparr>userData_building = JNull, material_color = COLOR_HIGHLIGHTED\<rparr>)]"

text \<open>A decoder that knows the objects of four example completions.\<close>

definition exampleDecode :: "string \<Rightarrow> json option" where
  \<open>exampleDecode s =
     (if s = ''{"attribute":"color","operator":">","value":1}''
      then Some (JObj [(''attribute'', JStr ''color''), (''operator'', JStr ''>''), (''value'', JNum 1)])
      else if s = ''{"attribute":"height","operator":">","value":100}''
      then Some (JObj [(''attribute'', JStr ''height''), (''operator'', JStr ''>''), (''value'', JNum 100)])
      else if s = ''{"attribute":"height","operator":"!=","value":100}''
      then Some (JObj [(''attribute'', JStr ''height''), (''operator'', JStr ''!=''), (''value'', JNum 100)])
      else if s = ''{"attribute":"height","operator":">","value":"tall"}''
      then Some (JObj [(''attribute'', JStr ''height''), (''operator'', JStr ''>''), (''value'', JStr ''tall'')])
      else None)\<close>

section \<open>Properties of the API client\<close>

lemma objectField_Nil [simp]: "objectField [] name = JUndefined"
  by (simp add: objectField_def)

lemma objectField_Cons [simp]:
  "objectField ((k, v) # kvs) name = (if k = name then v else objectField kvs name)"
  by (simp add: objectField_def)

lemma getProp_readable: "getProp v n = Inr x \<Longrightarrow> getProp v m \<noteq> Inl err"
  by (cases v) auto

lemma getProp_truthy: "truthy v \<Longrightarrow> \<exists>x. getProp v n = Inr x"
  by (cases v) auto

lemma queryBuildings_returns: "\<exists>res. queryBuildings e q k = Inr res"
  by (simp add: queryBuildings_def split: sum.splits)

lemma fetchBuildings_value:
  "\<exists>data. fetchBuildings e = Inr data \<and> (data = JArr [] \<or> truthy data)
     \<and> (listingFailed e \<longrightarrow> data = JArr [])"
  unfolding fetchBuildings_def fetchBuildings_try_def listingFailed_def listingData_def
  by (auto split: sum.splits simp: orElse_def dest: getProp_readable)

text \<open>
  Claim C8, as amended. \<open>queryBuildings\<close> never throws: for every query, key and
  surroundings it returns an object. Its \<open>error\<close> is \<open>null\<close> exactly when the call
  succeeded; whenever \<open>error\<close> is not \<open>null\<close>, \<open>matching_ids\<close> is the empty array and
  \<open>filter_parsed\<close> is \<open>null\<close>. On success \<open>matching_ids\<close> is the response's
  \<open>matching_ids\<close> when that is truthy and the empty array otherwise, so it is an array
  whenever the response's field is an array or falsy; \<open>filter_parsed\<close> is the response's.
\<close>

theorem queryBuildings_total:
  "\<exists>res. queryBuildings e q apiKey = Inr res
     \<and> (error res = JNull \<longleftrightarrow> succeeded e q apiKey)
     \<and> (error res \<noteq> JNull \<longrightarrow> matching_ids res = JArr [] \<and> filter_parsed res = JNull)
     \<and> (succeeded e q apiKey \<longrightarrow>
           matching_ids res = orElse (responseField e q apiKey ''matching_ids'') (JArr [])
         \<and> filter_parsed res = responseField e q apiKey ''filter_parsed'')
     \<and> (isArray (responseField e q apiKey ''matching_ids'')
          \<or> \<not> truthy (responseField e q apiKey ''matching_ids'')
         \<longrightarrow> isArray (matching_ids res))"
  unfolding queryBuildings_def queryBuildings_try_def succeeded_def responseData_def responseField_def
  by (auto split: sum.splits simp: orElse_def isArray_def dest: getProp_readable)

text \<open>
  Two runs: an OK response carrying one id succeeds and returns it; a response with
  status 500 fails and returns the empty array with a non-null error.
\<close>

theorem queryBuildings_total_witness:
  "succeeded (respondsWith (okJson (JObj [(''matching_ids'', JArr [JStr ''1072734'']), (''filter_parsed'', JNull)]))) ''tall'' JUndefined
   \<and> (\<exists>res. queryBuildings (respondsWith (okJson (JObj [(''matching_ids'', JArr [JStr ''1072734'']), (''filter_parsed'', JNull)]))) ''tall'' JUndefined = Inr res
        \<and> error res = JNull \<and> matching_ids res = JArr [JStr ''1072734''] \<and> isArray (matching_ids res))
   \<and> (\<exists>res. queryBuildings (respondsWith \<lparr>ok = False, status = 500, json_body = Inr JNull\<rparr>) ''tall'' JUndefined = Inr res
        \<and> error res \<noteq> JNull \<and> matching_ids res = JArr [] \<and> filter_parsed res = JNull)"
proof -
  let ?e1 = "respondsWith (okJson (JObj [(''matching_ids'', JArr [JStr ''1072734'']), (''filter_parsed'', JNull)]))"
  let ?e2 = "respondsWith \<lparr>ok = False, status = 500, json_body = Inr JNull\<rparr>"
  have s1: "succeeded ?e1 ''tall'' JUndefined"
    by (simp add: succeeded_def responseData_def respondsWith_def okJson_def)
  have f1: "responseField ?e1 ''tall'' JUndefined ''matching_ids'' = JArr [JStr ''1072734'']"
    by (simp add: responseField_def responseData_def respondsWith_def okJson_def)
  have s2: "\<not> succeeded ?e2 ''tall'' JUndefined"
    by (simp add: succeeded_def responseData_def respondsWith_def)
  from queryBuildings_total [of ?e1 "''tall''" JUndefined] s1 f1
  have a: "\<exists>res. queryBuildings ?e1 ''tall'' JUndefined = Inr res
        \<and> error res = JNull \<and> matching_ids res = JArr [JStr ''1072734''] \<and> isArray (matching_ids res)"
    by (auto simp: orElse_def isArray_def)
  from queryBuildings_total [of ?e2 "''tall''" JUndefined] s2
  have b: "\<exists>res. queryBuildings ?e2 ''tall'' JUndefined = Inr res
        \<and> error res \<noteq> JNull \<and> matching_ids res = JArr [] \<and> filter_parsed res = JNull"
    by auto
  from s1 a b show ?thesis by blast
qed

text \<open>
  Claim C8 as stated fails: an OK response whose \<open>matching_ids\<close> is a (truthy) string is
  passed through by \<open>data.matching_ids || []\<close>, and the returned \<open>matching_ids\<close> is not
  an array.
\<close>

theorem queryBuildings_array_counterexample:
  "queryBuildings (respondsWith (okJson (JObj [(''matching_ids'', JStr ''all'')]))) ''tall buildings'' JUndefined
     = Inr \<lparr>matching_ids = JStr ''all'', filter_parsed = JUndefined, error = JNull\<rparr>
   \<and> \<not> isArray (JStr ''all'')"
  by (simp add: queryBuildings_def queryBuildings_try_def respondsWith_def okJson_def orElse_def isArray_def)

text \<open>The fusion loop skips every footprint that fails geometry validation.\<close>

lemma fuseLoop_no_valid_footprint:
  "\<forall>f \<in> set fs. \<not> validFootprint f \<Longrightarrow> fuseLoop g recs used fs = []"
  by (induction fs arbitrary: used) (auto simp: validFootprint_def split: option.splits)

text \<open>
  Claim C1, as amended. In the provided client the caller half fails: \<open>fetchBuildings\<close>
  never throws and returns the empty array for every failed listing, the same value a
  zero-building listing gives; \<open>loadBuildings\<close> maps the empty array to the failure
  state \<open>Failed to load buildings\<close> (the buildings held stay as they were) and stores a
  non-empty array with the error cleared, in both cases ending with \<open>loading\<close> false.
  The fusion half stands as the claim has it: \<open>fuse\<close> is a total function into building
  sequences (it has no failure value); without footprints it returns the empty sequence
  whatever the assessment records are, in particular when both record sets are empty,
  and so it does when no footprint passes geometry validation.
\<close>

theorem loadBuildings_empty_is_failure:
  "(\<exists>data. fetchBuildings e = Inr data
       \<and> (listingFailed e \<longrightarrow> data = JArr [])
       \<and> (data = JArr [] \<longrightarrow>
             loadBuildings e st
               = Inr (st\<lparr>app_error := JStr ''Failed to load buildings'', app_loading := False\<rparr>))
       \<and> (\<forall>b bs. data = JArr (b # bs) \<longrightarrow>
             loadBuildings e st
               = Inr (st\<lparr>buildings := data, app_error := JNull, app_loading := False\<rparr>)))
   \<and> fuse g [] [] = []
   \<and> fuse g [] recs = []
   \<and> ((\<forall>f \<in> set fs. \<not> validFootprint f) \<longrightarrow> fuse g fs recs = [])"
proof -
  have empty: "fuse g [] recs' = []" for recs'
    by (simp add: fuse_def)
  have invalid: "fuse g fs recs = []" if "\<forall>f \<in> set fs. \<not> validFootprint f"
    using that by (simp add: fuse_def fuseLoop_no_valid_footprint)
  obtain data where d: "fetchBuildings e = Inr data" "listingFailed e \<longrightarrow> data = JArr []"
    using fetchBuildings_value by blast
  have none: "loadBuildings e st
      = Inr (st\<lparr>app_error := JStr ''Failed to load buildings'', app_loading := False\<rparr>)"
    if "data = JArr []"
    using d(1) that
    by (simp add: loadBuildings_def greaterThanZero_def toNumber_def andThen_def)
  have some: "loadBuildings e st
      = Inr (st\<lparr>buildings := data, app_error := JNull, app_loading := False\<rparr>)"
    if "data = JArr (b # bs)" for b bs
    using d(1) that
    by (simp add: loadBuildings_def greaterThanZero_def toNumber_def andThen_def)
  from d none some empty invalid show ?thesis by blast
qed

text \<open>
  Three runs: a listing answered with status 500 fails and leaves the failure state; a
  listing of one building is stored; fusing a footprint of two vertices with one
  assessment record gives no building.
\<close>

theorem loadBuildings_empty_is_failure_witness:
  "listingFailed (respondsWith \<lparr>ok = False, status = 500, json_body = Inr JNull\<rparr>)
   \<and> (\<exists>st'. loadBuildings (respondsWith \<lparr>ok = False, status = 500, json_body = Inr JNull\<rparr>) initialApp = Inr st'
         \<and> app_error st' = JStr ''Failed to load buildings'' \<and> buildings st' = JArr [])
   \<and> (\<exists>st'. loadBuildings (respondsWith (okJson (JObj [(''data'', JArr [JObj [(''id'', JStr ''1072734'')]])]))) initialApp = Inr st'
         \<and> app_error st' = JNull \<and> buildings st' = JArr [JObj [(''id'', JStr ''1072734'')]])
   \<and> \<not> validFootprint (exampleFootprint\<lparr>polygon := [JArr [JNum 0, JNum 0], JArr [JNum 3, JNum 0]]\<rparr>)
   \<and> fuse exampleGeometry
        [exampleFootprint\<lparr>polygon := [JArr [JNum 0, JNum 0], JArr [JNum 3, JNum 0]]\<rparr>]
        [exampleAssessment ''A'' (1, 1)] = []"
proof -
  let ?short = "exampleFootprint\<lparr>polygon := [JArr [JNum 0, JNum 0], JArr [JNum 3, JNum 0]]\<rparr>"
  let ?e1 = "respondsWith \<lparr>ok = False, status = 500, json_body = Inr JNull\<rparr>"
  let ?e2 = "respondsWith (okJson (JObj [(''data'', JArr [JObj [(''id'', JStr ''1072734'')]])]))"
  have v: "\<not> validFootprint ?short"
    by (simp add: validFootprint_def parsePolygon_def)
  have f1: "listingFailed ?e1"
    by (simp add: listingFailed_def listingData_def respondsWith_def)
  have d2: "fetchBuildings ?e2 = Inr (JArr [JObj [(''id'', JStr ''1072734'')]])"
    by (simp add: fetchBuildings_def fetchBuildings_try_def respondsWith_def okJson_def orElse_def)
  note t1 = loadBuildings_empty_is_failure
    [where g = exampleGeometry and fs = "[?short]" and recs = "[exampleAssessment ''A'' (1, 1)]"
       and e = ?e1 and st = initialApp]
  note t2 = loadBuildings_empty_is_failure
    [where g = exampleGeometry and fs = "[]" and recs = "[]" and e = ?e2 and st = initialApp]
  from t1 v have z: "fuse exampleGeometry [?short] [exampleAssessment ''A'' (1, 1)] = []"
    by simp
  from t1 f1
  have a: "\<exists>st'. loadBuildings ?e1 initialApp = Inr st'
         \<and> app_error st' = JStr ''Failed to load buildings'' \<and> buildings st' = JArr []"
    by (auto simp: initialApp_def)
  from t2 d2
  have b: "\<exists>st'. loadBuildings ?e2 initialApp = Inr st'
         \<and> app_error st' = JNull \<and> buildings st' = JArr [JObj [(''id'', JStr ''1072734'')]]"
    by (auto simp: initialApp_def)
  from f1 a b v z show ?thesis by blast
qed

text \<open>
  Claim C1 as stated fails: when the backend answers the listing with zero buildings
  (\<open>{data: []}\<close>), \<open>loadBuildings\<close> puts the application in the failure state.
\<close>

theorem loadBuildings_zero_buildings_counterexample:
  "loadBuildings (respondsWith (okJson (JObj [(''data'', JArr [])]))) initialApp
     = Inr \<lparr>buildings = JArr [], highlightedIds = JArr [], selectedBuilding = JNull,
            app_loading = False, app_error = JStr ''Failed to load buildings''\<rparr>"
  by (simp add: loadBuildings_def fetchBuildings_def fetchBuildings_try_def respondsWith_def
        okJson_def orElse_def initialApp_def greaterThanZero_def toNumber_def andThen_def)

section \<open>Properties of the query panel\<close>

text \<open>
  Claim C9, as amended. \<open>handleSubmit\<close> never throws. With a blank query it changes
  nothing and calls nothing. Otherwise, when the result's \<open>error\<close> is truthy it does not
  call \<open>onQueryResult\<close>, so the application's state is what it was, and it records the
  error and clears its last result; when the result's \<open>error\<close> is falsy it calls
  \<open>onQueryResult\<close> once, with the result's \<open>matching_ids\<close> (which may be the empty array).
  \<open>handleClear\<close> calls it once with the empty array.
\<close>

theorem handleSubmit_failed_query_keeps_highlights:
  "\<exists>st' calls. handleSubmit e st = Inr (st', calls)
     \<and> (trim (query st) = [] \<longrightarrow> st' = st \<and> calls = [])
     \<and> (trim (query st) \<noteq> [] \<longrightarrow>
          (\<exists>result. queryBuildings e (query st) JUndefined = Inr result
             \<and> (truthy (error result) \<longrightarrow>
                   calls = [] \<and> deliver app calls = app
                 \<and> panel_error st' = error result \<and> lastResult st' = None)
             \<and> (\<not> truthy (error result) \<longrightarrow>
                   calls = [matching_ids result]
                 \<and> highlightedIds (deliver app calls) = matching_ids result
                 \<and> lastResult st' = Some result)))
     \<and> snd (handleClear st) = [JArr []]
     \<and> highlightedIds (deliver app (snd (handleClear st))) = JArr []"
proof -
  obtain result where r: "queryBuildings e (query st) JUndefined = Inr result"
    using queryBuildings_returns by blast
  show ?thesis
    using r by (auto simp: handleSubmit_def handleClear_def deliver_def handleQueryResult_def Let_def)
qed

text \<open>
  Three runs: the query \<open>tall\<close> answered with status 500 gives a truthy error, no call,
  and leaves a highlighted id in place; answered with one id it passes that id on; a
  query of a space and a no-break space is blank and changes nothing.
\<close>

theorem handleSubmit_failed_query_keeps_highlights_witness:
  "trim ''tall'' \<noteq> []
   \<and> (\<exists>st' calls result.
         handleSubmit (respondsWith \<lparr>ok = False, status = 500, json_body = Inr JNull\<rparr>)
           \<lparr>query = ''tall'', loading = False, lastResult = None, panel_error = JNull\<rparr> = Inr (st', calls)
       \<and> queryBuildings (respondsWith \<lparr>ok = False, status = 500, json_body = Inr JNull\<rparr>) ''tall'' JUndefined = Inr result
       \<and> truthy (error result) \<and> calls = []
       \<and> deliver (initialApp\<lparr>highlightedIds := JArr [JStr ''7'']\<rparr>) calls = initialApp\<lparr>highlightedIds := JArr [JStr ''7'']\<rparr>)
   \<and> (\<exists>st'. handleSubmit (respondsWith (okJson (JObj [(''matching_ids'', JArr [JStr ''9''])])))
           \<lparr>query = ''tall'', loading = False, lastResult = None, panel_error = JNull\<rparr>
         = Inr (st', [JArr [JStr ''9'']]))
   \<and> trim [CHR 0x20, CHR 0xA0] = []
   \<and> handleSubmit (rejectsWith (Error ''offline''))
           \<lparr>query = [CHR 0x20, CHR 0xA0], loading = False, lastResult = None, panel_error = JNull\<rparr>
       = Inr (\<lparr>query = [CHR 0x20, CHR 0xA0], loading = False, lastResult = None, panel_error = JNull\<rparr>, [])"
proof -
  let ?e = "respondsWith \<lparr>ok = False, status = 500, json_body = Inr JNull\<rparr>"
  let ?e2 = "respondsWith (okJson (JObj [(''matching_ids'', JArr [JStr ''9''])]))"
  let ?e3 = "rejectsWith (Error ''offline'')"
  let ?st = "\<lparr>query = ''tall'', loading = False, lastResult = None, panel_error = JNull\<rparr>"
  let ?blank = "\<lparr>query = [CHR 0x20, CHR 0xA0], loading = False, lastResult = None, panel_error = JNull\<rparr>"
  let ?app = "initialApp\<lparr>highlightedIds := JArr [JStr ''7'']\<rparr>"
  have t: "trim (query ?st) \<noteq> []"
    by (simp add: trim_def isWhiteSpace_def)
  have q: "queryBuildings ?e (query ?st) JUndefined
      = Inr \<lparr>matching_ids = JArr [], filter_parsed = JNull, error = JStr ''HTTP error! status: 500''\<rparr>"
    by (simp add: queryBuildings_def queryBuildings_try_def respondsWith_def httpError_def)
  have q2: "queryBuildings ?e2 (query ?st) JUndefined
      = Inr \<lparr>matching_ids = JArr [JStr ''9''], filter_parsed = JUndefined, error = JNull\<rparr>"
    by (simp add: queryBuildings_def queryBuildings_try_def respondsWith_def okJson_def orElse_def)
  have b: "trim (query ?blank) = []"
    by (simp add: trim_def isWhiteSpace_def)
  from handleSubmit_failed_query_keeps_highlights [of ?e ?st ?app] t q
  have 1: "\<exists>st' calls result.
         handleSubmit ?e ?st = Inr (st', calls)
       \<and> queryBuildings ?e ''tall'' JUndefined = Inr result
       \<and> truthy (error result) \<and> calls = [] \<and> deliver ?app calls = ?app"
    by auto
  from handleSubmit_failed_query_keeps_highlights [of ?e2 ?st ?app] t q2
  have 2: "\<exists>st'. handleSubmit ?e2 ?st = Inr (st', [JArr [JStr ''9'']])"
    by auto
  from handleSubmit_failed_query_keeps_highlights [of ?e3 ?blank ?app] b
  have 3: "handleSubmit ?e3 ?blank = Inr (?blank, [])"
    by auto
  from t b 1 2 3 show ?thesis by simp
qed

text \<open>
  Claim C9 as stated fails twice. A request rejected with an error whose message is
  empty gives a result whose \<open>error\<close> is the empty string: not \<open>null\<close>, yet falsy, so
  \<open>onQueryResult\<close> is called with the empty array. And a successful query without
  matches passes the empty array too, with no clear.
\<close>

theorem handleSubmit_counterexample:
  "handleSubmit (rejectsWith (Error []))
       \<lparr>query = ''tall'', loading = False, lastResult = None, panel_error = JNull\<rparr>
     = Inr (\<lparr>query = ''tall'', loading = False,
             lastResult = Some \<lparr>matching_ids = JArr [], filter_parsed = JNull, error = JStr []\<rparr>,
             panel_error = JNull\<rparr>,
            [JArr []])
   \<and> JStr [] \<noteq> JNull
   \<and> handleSubmit (respondsWith (okJson (JObj [(''matching_ids'', JArr []), (''filter_parsed'', JNull)])))
       \<lparr>query = ''tall'', loading = False, lastResult = None, panel_error = JNull\<rparr>
     = Inr (\<lparr>query = ''tall'', loading = False,
             lastResult = Some \<lparr>matching_ids = JArr [], filter_parsed = JNull, error = JNull\<rparr>,
             panel_error = JNull\<rparr>,
            [JArr []])"
  by (simp add: handleSubmit_def queryBuildings_def queryBuildings_try_def rejectsWith_def
        respondsWith_def okJson_def orElse_def trim_def isWhiteSpace_def)

section \<open>Properties of the viewer\<close>

lemma highlightColor_array:
  "isArray hl \<or> \<not> truthy hl \<Longrightarrow> highlightColor s2n sel hl k = Inr (colorOf sel hl k)"
  by (cases hl)
     (auto simp: highlightColor_def colorOf_def jsIncludes_def andThen_def isArray_def
        greaterThanZero_def toNumber_def)

lemma updateColors_map:
  "isArray hl \<or> \<not> truthy hl \<Longrightarrow>
   updateColors s2n sel hl ms
     = (map (\<lambda>(k, m). (k, m\<lparr>material_color := colorOf sel hl k\<rparr>)) ms, None)"
  by (induction ms) (auto simp: highlightColor_array)

lemma colors_distinct:
  "COLOR_SELECTED \<noteq> COLOR_DIMMED" "COLOR_HIGHLIGHTED \<noteq> COLOR_DIMMED" "COLOR_DEFAULT \<noteq> COLOR_DIMMED"
  by (simp_all add: COLOR_SELECTED_def COLOR_DIMMED_def COLOR_HIGHLIGHTED_def COLOR_DEFAULT_def)

text \<open>
  Claim C10, as amended. Let \<open>highlightedIds\<close> be an array, which is what the component
  is documented to take, or be falsy (\<open>null\<close>, \<open>undefined\<close>, which the effect guards
  against). The highlight effect does not throw, and after it every mesh is still there
  under its id, with its building, and its colour is one of the four constants, by
  strict precedence: selected, else highlighted when its id is in \<open>highlightedIds\<close>,
  else dimmed when \<open>highlightedIds\<close> is not empty, else default. With no highlighted
  ids no mesh is dimmed.
\<close>

theorem updateColors_precedence:
  "isArray hl \<or> \<not> truthy hl \<Longrightarrow>
   snd (updateColors s2n sel hl ms) = None
   \<and> length (fst (updateColors s2n sel hl ms)) = length ms
   \<and> (\<forall>i < length ms.
        fst (fst (updateColors s2n sel hl ms) ! i) = fst (ms ! i)
      \<and> userData_building (snd (fst (updateColors s2n sel hl ms) ! i))
           = userData_building (snd (ms ! i))
      \<and> material_color (snd (fst (updateColors s2n sel hl ms) ! i))
           \<in> {COLOR_SELECTED, COLOR_HIGHLIGHTED, COLOR_DIMMED, COLOR_DEFAULT}
      \<and> (sel = JStr (fst (ms ! i)) \<longrightarrow>
            material_color (snd (fst (updateColors s2n sel hl ms) ! i)) = COLOR_SELECTED)
      \<and> (sel \<noteq> JStr (fst (ms ! i)) \<and> (\<exists>ids. hl = JArr ids \<and> JStr (fst (ms ! i)) \<in> set ids) \<longrightarrow>
            material_color (snd (fst (updateColors s2n sel hl ms) ! i)) = COLOR_HIGHLIGHTED)
      \<and> (sel \<noteq> JStr (fst (ms ! i))
           \<and> (\<exists>ids. hl = JArr ids \<and> JStr (fst (ms ! i)) \<notin> set ids \<and> ids \<noteq> []) \<longrightarrow>
            material_color (snd (fst (updateColors s2n sel hl ms) ! i)) = COLOR_DIMMED)
      \<and> (sel \<noteq> JStr (fst (ms ! i)) \<and> (hl = JArr [] \<or> \<not> truthy hl) \<longrightarrow>
            material_color (snd (fst (updateColors s2n sel hl ms) ! i)) = COLOR_DEFAULT)
      \<and> (hl = JArr [] \<or> \<not> truthy hl \<longrightarrow>
            material_color (snd (fst (updateColors s2n sel hl ms) ! i)) \<noteq> COLOR_DIMMED))"
proof -
  assume h: "isArray hl \<or> \<not> truthy hl"
  have c: "colorOf sel hl k \<in> {COLOR_SELECTED, COLOR_HIGHLIGHTED, COLOR_DIMMED, COLOR_DEFAULT}"
    "sel = JStr k \<longrightarrow> colorOf sel hl k = COLOR_SELECTED"
    "sel \<noteq> JStr k \<and> (\<exists>ids. hl = JArr ids \<and> JStr k \<in> set ids) \<longrightarrow> colorOf sel hl k = COLOR_HIGHLIGHTED"
    "sel \<noteq> JStr k \<and> (\<exists>ids. hl = JArr ids \<and> JStr k \<notin> set ids \<and> ids \<noteq> []) \<longrightarrow> colorOf sel hl k = COLOR_DIMMED"
    "sel \<noteq> JStr k \<and> (hl = JArr [] \<or> \<not> truthy hl) \<longrightarrow> colorOf sel hl k = COLOR_DEFAULT"
    "hl = JArr [] \<or> \<not> truthy hl \<longrightarrow> colorOf sel hl k \<noteq> COLOR_DIMMED"
    for k
    using h by (auto simp: colorOf_def colors_distinct isArray_def split: json.splits)
  show ?thesis
    unfolding updateColors_map [OF h]
    using c by (simp add: split_beta)
qed

text \<open>
  Two runs on three meshes \<open>a\<close>, \<open>b\<close>, \<open>c\<close>: with \<open>a\<close> selected and \<open>b\<close> highlighted,
  and with nothing selected and no highlighted ids.
\<close>

theorem updateColors_precedence_witness:
  "isArray (JArr [JStr ''b'']) \<and> isArray (JArr [])
   \<and> snd (updateColors (\<lambda>s. NaN) (JStr ''a'') (JArr [JStr ''b'']) exampleMeshes) = None
   \<and> material_color (snd (fst (updateColors (\<lambda>s. NaN) (JStr ''a'') (JArr [JStr ''b'']) exampleMeshes) ! 0))
       = COLOR_SELECTED
   \<and> material_color (snd (fst (updateColors (\<lambda>s. NaN) (JStr ''a'') (JArr [JStr ''b'']) exampleMeshes) ! 1))
       = COLOR_HIGHLIGHTED
   \<and> material_color (snd (fst (updateColors (\<lambda>s. NaN) (JStr ''a'') (JArr [JStr ''b'']) exampleMeshes) ! 2))
       = COLOR_DIMMED
   \<and> material_color (snd (fst (updateColors (\<lambda>s. NaN) JUndefined (JArr []) exampleMeshes) ! 2))
       = COLOR_DEFAULT"
proof -
  let ?r = "updateColors (\<lambda>s. NaN) (JStr ''a'') (JArr [JStr ''b'']) exampleMeshes"
  let ?plain = "updateColors (\<lambda>s. NaN) JUndefined (JArr []) exampleMeshes"
  have a: "isArray (JArr [JStr ''b''])" "isArray (JArr [])"
    by (simp_all add: isArray_def)
  have n: "length exampleMeshes = 3"
    and k: "fst (exampleMeshes ! 0) = ''a''" "fst (exampleMeshes ! 1) = ''b''"
      "fst (exampleMeshes ! 2) = ''c''"
    by (simp_all add: exampleMeshes_def)
  note t = updateColors_precedence [of "JArr [JStr ''b'']" "\<lambda>s. NaN" "JStr ''a''" exampleMeshes,
      OF disjI1 [OF a(1)]]
  note u = updateColors_precedence [of "JArr []" "\<lambda>s. NaN" JUndefined exampleMeshes,
      OF disjI1 [OF a(2)]]
  from t [THEN conjunct1] have thrown: "snd ?r = None" .
  from t [THEN conjunct2, THEN conjunct2] have each: "\<forall>i < 3.
        (JStr ''a'' = JStr (fst (exampleMeshes ! i)) \<longrightarrow>
            material_color (snd (fst ?r ! i)) = COLOR_SELECTED)
      \<and> (JStr ''a'' \<noteq> JStr (fst (exampleMeshes ! i)) \<and> JStr (fst (exampleMeshes ! i)) \<in> set [JStr ''b''] \<longrightarrow>
            material_color (snd (fst ?r ! i)) = COLOR_HIGHLIGHTED)
      \<and> (JStr ''a'' \<noteq> JStr (fst (exampleMeshes ! i)) \<and> JStr (fst (exampleMeshes ! i)) \<notin> set [JStr ''b''] \<longrightarrow>
            material_color (snd (fst ?r ! i)) = COLOR_DIMMED)"
    by (simp add: n)
  from each [rule_format, of 0] each [rule_format, of 1] each [rule_format, of 2] k
  have cs: "material_color (snd (fst ?r ! 0)) = COLOR_SELECTED"
    "material_color (snd (fst ?r ! 1)) = COLOR_HIGHLIGHTED"
    "material_color (snd (fst ?r ! 2)) = COLOR_DIMMED"
    by simp_all
  from u [THEN conjunct2, THEN conjunct2]
  have "\<forall>i < 3. material_color (snd (fst ?plain ! i)) = COLOR_DEFAULT"
    by (simp add: n)
  then have "material_color (snd (fst ?plain ! 2)) = COLOR_DEFAULT"
    by simp
  with a thrown cs show ?thesis by simp
qed

text \<open>
  Claim C10 as stated fails for a highlight update with a truthy value that is not an
  array. A response whose \<open>matching_ids\<close> is the number 5 makes \<open>handleSubmit\<close> pass 5 to
  \<open>onQueryResult\<close>, and the application hands it to the viewer as \<open>highlightedIds\<close>.
  With mesh \<open>b\<close> selected, the effect reaches mesh \<open>a\<close> first, where \<open>includes\<close> is no
  function of a number: it throws, and mesh \<open>b\<close> keeps the dimmed colour it had, not
  the selected one.
\<close>

theorem updateColors_counterexample:
  "handleSubmit (respondsWith (okJson (JObj [(''matching_ids'', JNum 5)])))
       \<lparr>query = ''tall'', loading = False, lastResult = None, panel_error = JNull\<rparr>
     = Inr (\<lparr>query = ''tall'', loading = False,
             lastResult = Some \<lparr>matching_ids = JNum 5, filter_parsed = JUndefined, error = JNull\<rparr>,
             panel_error = JNull\<rparr>,
            [JNum 5])
   \<and> highlightedIds (deliver initialApp [JNum 5]) = JNum 5
   \<and> updateColors noNumeral (JStr ''b'') (JNum 5) exampleMeshes
     = (exampleMeshes, Some (Error ''highlightedIds.includes is not a function''))
   \<and> exampleMeshes ! 1 = (''b'', \<lparr>userData_building = JNull, material_color = COLOR_DIMMED\<rparr>)
   \<and> COLOR_DIMMED \<noteq> COLOR_SELECTED"
  by (simp add: handleSubmit_def queryBuildings_def queryBuildings_try_def respondsWith_def
        okJson_def orElse_def trim_def isWhiteSpace_def deliver_def handleQueryResult_def
        initialApp_def exampleMeshes_def highlightColor_def jsIncludes_def andThen_def
        COLOR_DIMMED_def COLOR_SELECTED_def)

section \<open>The payloads and their consumers\<close>









section \<open>Properties of the fusion engine\<close>

lemma nearest_keeps_some:
  "best \<noteq> None \<Longrightarrow> nearest distOf limit cands best \<noteq> None"
  by (induction cands arbitrary: best) (auto split: option.splits)

lemma nearest_none_beyond:
  "nearest distOf limit cands None = None
     \<Longrightarrow> \<forall>j \<in> set cands. \<forall>dj. distOf j = Some dj \<longrightarrow> limit < dj"
proof (induction cands)
  case Nil
  then show ?case by simp
next
  case (Cons c cands)
  show ?case
  proof (cases "distOf c")
    case None
    with Cons show ?thesis by auto
  next
    case (Some dc)
    show ?thesis
    proof (cases "limit < dc")
      case True
      with Some Cons show ?thesis by auto
    next
      case False
      with Some Cons.prems have "nearest distOf limit cands (Some (c, dc)) = None"
        by simp
      with nearest_keeps_some [of "Some (c, dc)" distOf limit cands] show ?thesis
        by simp
    qed
  qed
qed

text \<open>
  The scan's invariant: over candidates in increasing insertion order, with a best so
  far that precedes them all, the result is within the limit, no candidate within the
  limit is nearer, and an equally near one comes later.
\<close>

lemma nearest_least:
  assumes "sorted_wrt (<) cands"
    and "\<forall>b db. best = Some (b, db) \<longrightarrow> (\<forall>j \<in> set cands. b < j)"
    and "nearest distOf limit cands best = Some (i, d)"
  shows "(best = Some (i, d) \<or> (i \<in> set cands \<and> distOf i = Some d \<and> d \<le> limit))
       \<and> (\<forall>j \<in> set cands. \<forall>dj. distOf j = Some dj \<and> dj \<le> limit \<longrightarrow> d < dj \<or> (d = dj \<and> i \<le> j))
       \<and> (\<forall>b db. best = Some (b, db) \<longrightarrow> d < db \<or> (d = db \<and> i = b))"
  using assms
proof (induction cands arbitrary: best)
  case Nil
  then show ?case by auto
next
  case (Cons c cands)
  let ?best' = "(case distOf c of
          None \<Rightarrow> best
        | Some dc \<Rightarrow>
            if limit < dc then best
            else (case best of
                    None \<Rightarrow> Some (c, dc)
                  | Some (j, dj) \<Rightarrow> if dc < dj then Some (c, dc) else best))"
  have run: "nearest distOf limit cands ?best' = Some (i, d)"
    using Cons.prems(3) by simp
  have srt: "sorted_wrt (<) cands" and lt: "\<forall>j \<in> set cands. c < j"
    using Cons.prems(1) by auto
  have pre: "\<forall>b db. ?best' = Some (b, db) \<longrightarrow> (\<forall>j \<in> set cands. b < j)"
    using Cons.prems(2) lt by (auto split: option.splits if_splits)
  note IH = Cons.IH [OF srt pre run]
  show ?case
    using IH Cons.prems(2) lt
    by (auto split: option.splits if_splits)
qed

lemma available_sorted: "sorted_wrt (<) (available used recs)"
  by (simp add: available_def sorted_wrt_filter)

text \<open>
  Claim C6. The proximity fallback picks, among the assessment records not yet consumed
  and within the maximum distance, a nearest one, and among equally near ones the one of
  lowest insertion order; it finds none only when every such record is beyond the
  maximum distance. The choice is thus fixed by the distances and the insertion order
  alone. \<open>findMatch\<close> falls back to it whenever containment does not single out one
  record, and \<open>fuse\<close>, being a function, gives equal outputs on equal inputs.
\<close>

theorem proximityMatch_tie_break:
  "(proximityMatch g recs used c = Some i \<longrightarrow>
      i \<in> set (available used recs)
    \<and> (\<exists>d. distanceTo g recs c i = Some d \<and> d \<le> MAX_DISTANCE g
          \<and> (\<forall>j \<in> set (available used recs). \<forall>dj.
                 distanceTo g recs c j = Some dj \<and> dj \<le> MAX_DISTANCE g
                 \<longrightarrow> d < dj \<or> (d = dj \<and> i \<le> j))))
   \<and> (proximityMatch g recs used c = None \<longrightarrow>
        (\<forall>j \<in> set (available used recs). \<forall>dj.
            distanceTo g recs c j = Some dj \<longrightarrow> MAX_DISTANCE g < dj))
   \<and> ((\<forall>k. filter (\<lambda>k. inside g (multipolygon (recs ! k)) c) (available used recs) \<noteq> [k])
        \<longrightarrow> findMatch g recs used c = proximityMatch g recs used c)
   \<and> (fs = fs' \<and> recs = recs' \<longrightarrow> fuse g fs recs = fuse g fs' recs')"
proof -
  have some: "i \<in> set (available used recs)
    \<and> (\<exists>d. distanceTo g recs c i = Some d \<and> d \<le> MAX_DISTANCE g
          \<and> (\<forall>j \<in> set (available used recs). \<forall>dj.
                 distanceTo g recs c j = Some dj \<and> dj \<le> MAX_DISTANCE g
                 \<longrightarrow> d < dj \<or> (d = dj \<and> i \<le> j)))"
    if m: "proximityMatch g recs used c = Some i"
  proof -
    from m obtain d where
      n: "nearest (distanceTo g recs c) (MAX_DISTANCE g) (available used recs) None = Some (i, d)"
      by (auto simp: proximityMatch_def)
    from nearest_least [OF available_sorted _ n] show ?thesis by auto
  qed
  have none: "\<forall>j \<in> set (available used recs). \<forall>dj.
            distanceTo g recs c j = Some dj \<longrightarrow> MAX_DISTANCE g < dj"
    if m: "proximityMatch g recs used c = None"
  proof -
    from m have "nearest (distanceTo g recs c) (MAX_DISTANCE g) (available used recs) None = None"
      by (simp add: proximityMatch_def)
    then show ?thesis by (rule nearest_none_beyond)
  qed
  have fallback: "findMatch g recs used c = proximityMatch g recs used c"
    if "\<forall>k. filter (\<lambda>k. inside g (multipolygon (recs ! k)) c) (available used recs) \<noteq> [k]"
    using that by (auto simp: findMatch_def split: list.splits)
  from some none fallback show ?thesis by blast
qed

text \<open>
  Two runs: of two assessment records at distance 1 on either side of the centroid the
  first in insertion order is matched; a single record at distance 200 is not.
\<close>

theorem proximityMatch_tie_break_witness:
  "proximityMatch exampleGeometry
       [exampleAssessment ''A'' (1, 0), exampleAssessment ''B'' (- 1, 0)] [] (0, 0) = Some 0
   \<and> distanceTo exampleGeometry
       [exampleAssessment ''A'' (1, 0), exampleAssessment ''B'' (- 1, 0)] (0, 0) 0 = Some 1
   \<and> distanceTo exampleGeometry
       [exampleAssessment ''A'' (1, 0), exampleAssessment ''B'' (- 1, 0)] (0, 0) 1 = Some 1
   \<and> 0 \<in> set (available [] [exampleAssessment ''A'' (1, 0), exampleAssessment ''B'' (- 1, 0)])
   \<and> findMatch exampleGeometry
       [exampleAssessment ''A'' (1, 0), exampleAssessment ''B'' (- 1, 0)] [] (0, 0) = Some 0
   \<and> proximityMatch exampleGeometry [exampleAssessment ''A'' (100, 100)] [] (0, 0) = None
   \<and> distanceTo exampleGeometry [exampleAssessment ''A'' (100, 100)] (0, 0) 0 = Some 200
   \<and> MAX_DISTANCE exampleGeometry < 200"
proof -
  let ?recs = "[exampleAssessment ''A'' (1, 0), exampleAssessment ''B'' (- 1, 0)]"
  let ?far = "[exampleAssessment ''A'' (100, 100)]"
  have m: "proximityMatch exampleGeometry ?recs [] (0, 0) = Some 0"
    by (simp add: proximityMatch_def available_def distanceTo_def exampleGeometry_def
          exampleAssessment_def centroid_def upt_rec)
  have d: "distanceTo exampleGeometry ?recs (0, 0) 0 = Some 1"
      "distanceTo exampleGeometry ?recs (0, 0) 1 = Some 1"
    by (simp_all add: distanceTo_def exampleGeometry_def exampleAssessment_def centroid_def)
  have c: "\<forall>k. filter (\<lambda>k. inside exampleGeometry (multipolygon (?recs ! k)) (0, 0))
      (available [] ?recs) \<noteq> [k]"
    by (simp add: exampleGeometry_def)
  from proximityMatch_tie_break [of exampleGeometry ?recs "[]" "(0, 0)" 0] m c
  have near: "0 \<in> set (available [] ?recs)"
    "findMatch exampleGeometry ?recs [] (0, 0) = Some 0"
    by simp_all
  have n: "proximityMatch exampleGeometry ?far [] (0, 0) = None"
    by (simp add: proximityMatch_def available_def distanceTo_def exampleGeometry_def
          exampleAssessment_def centroid_def)
  have a: "0 \<in> set (available [] ?far)"
    and df: "distanceTo exampleGeometry ?far (0, 0) 0 = Some 200"
    by (simp_all add: available_def distanceTo_def exampleGeometry_def exampleAssessment_def
          centroid_def)
  from proximityMatch_tie_break [of exampleGeometry ?far "[]" "(0, 0)"] n a df
  have far: "MAX_DISTANCE exampleGeometry < 200"
    by blast
  from m d near n df far show ?thesis by simp
qed

lemma fuseLoop_heights:
  "list_all2 (\<lambda>f b. building_id b = struct_id f \<and> height b = deriveHeight g f)
     (filter validFootprint fs) (fuseLoop g recs used fs)"
  by (induction fs arbitrary: used)
     (auto simp: validFootprint_def mkBuilding_def split: option.splits)

lemma deriveHeight_min: "MIN_HEIGHT g \<le> deriveHeight g f"
  by (simp add: deriveHeight_def split: option.splits)

text \<open>
  Claim C3. Every fused building's height is the derived height of its footprint:
  \<open>max (roof_elevation - ground_elevation) MIN_HEIGHT\<close> when both elevations are there,
  \<open>MIN_HEIGHT\<close> when one is missing. So every height is at least \<open>MIN_HEIGHT\<close>, and
  positive as \<open>MIN_HEIGHT\<close> is.
\<close>

theorem fuse_height_clamped:
  "list_all2 (\<lambda>f b. building_id b = struct_id f \<and> height b = deriveHeight g f)
     (filter validFootprint fs) (fuse g fs recs)
   \<and> (\<forall>f roof ground. roof_elevation f = Some roof \<and> ground_elevation f = Some ground \<longrightarrow>
         deriveHeight g f = max (roof - ground) (MIN_HEIGHT g))
   \<and> (\<forall>f. roof_elevation f = None \<or> ground_elevation f = None \<longrightarrow>
         deriveHeight g f = MIN_HEIGHT g)
   \<and> (\<forall>b \<in> set (fuse g fs recs). MIN_HEIGHT g \<le> height b)
   \<and> (0 < MIN_HEIGHT g \<longrightarrow> (\<forall>b \<in> set (fuse g fs recs). 0 < height b))"
proof -
  have l: "list_all2 (\<lambda>f b. building_id b = struct_id f \<and> height b = deriveHeight g f)
     (filter validFootprint fs) (fuse g fs recs)"
    by (simp add: fuse_def fuseLoop_heights)
  have ge: "MIN_HEIGHT g \<le> height b" if "b \<in> set (fuse g fs recs)" for b
  proof -
    from l that obtain f where "height b = deriveHeight g f"
      by (auto simp: list_all2_conv_all_nth in_set_conv_nth)
    then show ?thesis by (simp add: deriveHeight_min)
  qed
  have pos: "0 < height b" if "0 < MIN_HEIGHT g" "b \<in> set (fuse g fs recs)" for b
    using ge [OF that(2)] that(1) by linarith
  have some: "deriveHeight g f = max (roof - ground) (MIN_HEIGHT g)"
    if "roof_elevation f = Some roof" "ground_elevation f = Some ground" for f roof ground
    using that by (simp add: deriveHeight_def)
  have none: "deriveHeight g f = MIN_HEIGHT g"
    if "roof_elevation f = None \<or> ground_elevation f = None" for f
    using that by (auto simp: deriveHeight_def split: option.splits)
  from l ge pos some none show ?thesis by blast
qed

text \<open>
  A run: a footprint whose roof (10) lies below its ground (12), and the same footprint
  without a roof elevation; both heights are \<open>MIN_HEIGHT = 1/2\<close>.
\<close>

theorem fuse_height_clamped_witness:
  "0 < MIN_HEIGHT exampleGeometry
   \<and> roof_elevation exampleFootprint = Some 10 \<and> ground_elevation exampleFootprint = Some 12
   \<and> roof_elevation (exampleFootprint\<lparr>roof_elevation := None\<rparr>) = None
   \<and> map height (fuse exampleGeometry
                   [exampleFootprint, exampleFootprint\<lparr>roof_elevation := None\<rparr>] [])
       = [1 / 2, 1 / 2]
   \<and> list_all (\<lambda>b. 0 < height b)
       (fuse exampleGeometry [exampleFootprint, exampleFootprint\<lparr>roof_elevation := None\<rparr>] [])"
proof -
  let ?fs = "[exampleFootprint, exampleFootprint\<lparr>roof_elevation := None\<rparr>]"
  have m: "0 < MIN_HEIGHT exampleGeometry" "MIN_HEIGHT exampleGeometry = 1 / 2"
    by (simp_all add: exampleGeometry_def)
  have e: "roof_elevation exampleFootprint = Some 10" "ground_elevation exampleFootprint = Some 12"
    by (simp_all add: exampleFootprint_def)
  have v: "filter validFootprint ?fs = ?fs"
    by (simp add: validFootprint_def parsePolygon_def exampleFootprint_def)
  note t = fuse_height_clamped [of exampleGeometry ?fs "[]"]
  from t have l: "list_all2 (\<lambda>f b. building_id b = struct_id f \<and> height b = deriveHeight exampleGeometry f)
      ?fs (fuse exampleGeometry ?fs [])"
    by (simp only: v)
  from t e have h1: "deriveHeight exampleGeometry exampleFootprint = max (10 - 12) (1 / 2)"
    by (simp add: m)
  from t have h2: "deriveHeight exampleGeometry (exampleFootprint\<lparr>roof_elevation := None\<rparr>) = 1 / 2"
    by (simp add: m)
  from l h1 h2 have hs: "map height (fuse exampleGeometry ?fs []) = [1 / 2, 1 / 2]"
    by (auto simp: list_all2_Cons1)
  from t m(1) have "list_all (\<lambda>b. 0 < height b) (fuse exampleGeometry ?fs [])"
    by (simp add: list_all_iff)
  with m(1) e hs show ?thesis by simp
qed

section \<open>Properties of the filter engine\<close>

lemma parseAttribute_Some: "parseAttribute s = Some a \<longleftrightarrow> attributeName a = s"
  by (cases a) (auto simp: parseAttribute_def attributeWhitelist_def)

lemma parseAttribute_None:
  "parseAttribute s = None \<longleftrightarrow>
     s \<notin> set [''height'', ''land_use_designation'', ''assessed_value'', ''address'', ''year_of_construction'']"
  by (auto simp: parseAttribute_def attributeWhitelist_def)

lemma parseOperator_Some: "parseOperator s = Some p \<longleftrightarrow> operatorSymbol p = s"
  by (cases p) (auto simp: parseOperator_def operatorWhitelist_def)

lemma parseOperator_None:
  "parseOperator s = None \<longleftrightarrow> s \<notin> set [''>'', ''<'', ''=='', ''contains'']"
  by (auto simp: parseOperator_def operatorWhitelist_def)

lemma parseAttribute_name: "parseAttribute (attributeName a) = Some a"
  by (simp add: parseAttribute_Some)

lemma parseOperator_name: "parseOperator (operatorSymbol p) = Some p"
  by (simp add: parseOperator_Some)

lemma attributeName_inj: "attributeName a = attributeName b \<longleftrightarrow> a = b"
  by (cases a; cases b) simp_all

lemma operatorSymbol_inj: "operatorSymbol p = operatorSymbol r \<longleftrightarrow> p = r"
  by (cases p; cases r) simp_all

lemma attributeName_whitelisted:
  "attributeName a \<in> set [''height'', ''land_use_designation'', ''assessed_value'', ''address'', ''year_of_construction'']"
  by (cases a) auto

lemma operatorSymbol_whitelisted:
  "operatorSymbol p \<in> set [''>'', ''<'', ''=='', ''contains'']"
  by (cases p) auto

text \<open>A filter comes out of validation only as the object's own three fields.\<close>

lemma validateFilter_Inr:
  "validateFilter kvs = Inr f \<longleftrightarrow>
     objectField kvs ''attribute'' = JStr (attributeName (attribute f))
   \<and> objectField kvs ''operator'' = JStr (operatorSymbol (operator f))
   \<and> coerce (attribute f) (operator f) (objectField kvs ''value'') = Some (operand f)"
proof (cases f)
  case (fields attr oper v)
  show ?thesis
  proof (cases "objectField kvs ''attribute''")
    case (JStr a)
    show ?thesis
    proof (cases "objectField kvs ''operator''")
      case (JStr p)
      note p = this
      show ?thesis
        using fields \<open>objectField kvs ''attribute'' = JStr a\<close> p
        by (auto simp: validateFilter_def parseAttribute_Some parseOperator_Some
              parseAttribute_name parseOperator_name
              attributeName_inj operatorSymbol_inj split: option.splits)
    qed (use fields JStr in \<open>auto simp: validateFilter_def split: option.splits\<close>)
  qed (use fields in \<open>auto simp: validateFilter_def\<close>)
qed

lemma validateFilter_InvalidAttribute:
  "(\<forall>a. objectField kvs ''attribute'' = JStr a \<longrightarrow>
       a \<notin> set [''height'', ''land_use_designation'', ''assessed_value'', ''address'', ''year_of_construction''])
   \<Longrightarrow> validateFilter kvs = Inl InvalidAttribute"
proof (cases "objectField kvs ''attribute''")
  case (JStr a)
  assume "\<forall>a. objectField kvs ''attribute'' = JStr a \<longrightarrow>
       a \<notin> set [''height'', ''land_use_designation'', ''assessed_value'', ''address'', ''year_of_construction'']"
  with JStr have "parseAttribute a = None"
    by (simp only: parseAttribute_None) simp
  with JStr show ?thesis by (simp add: validateFilter_def)
qed (simp_all add: validateFilter_def)

lemma validateFilter_InvalidOperator:
  "objectField kvs ''attribute'' = JStr a \<Longrightarrow>
   a \<in> set [''height'', ''land_use_designation'', ''assessed_value'', ''address'', ''year_of_construction''] \<Longrightarrow>
   (\<forall>p. objectField kvs ''operator'' = JStr p \<longrightarrow> p \<notin> set [''>'', ''<'', ''=='', ''contains''])
   \<Longrightarrow> validateFilter kvs = Inl InvalidOperator"
proof -
  assume a: "objectField kvs ''attribute'' = JStr a"
    and w: "a \<in> set [''height'', ''land_use_designation'', ''assessed_value'', ''address'', ''year_of_construction'']"
    and p: "\<forall>p. objectField kvs ''operator'' = JStr p \<longrightarrow> p \<notin> set [''>'', ''<'', ''=='', ''contains'']"
  from w obtain attr where attr: "parseAttribute a = Some attr"
    using parseAttribute_None [of a] by (cases "parseAttribute a") auto
  show ?thesis
  proof (cases "objectField kvs ''operator''")
    case (JStr r)
    with p have "parseOperator r = None"
      by (simp only: parseOperator_None) simp
    with a attr JStr show ?thesis by (simp add: validateFilter_def)
  qed (use a attr in \<open>simp_all add: validateFilter_def\<close>)
qed

text \<open>
  Claim C5. \<open>parseCompletion\<close> returns a filter only when the completion holds an object
  whose \<open>attribute\<close> is one of the five names, whose \<open>operator\<close> is one of the four
  symbols and whose \<open>value\<close> coerces, and the filter is made of exactly these three: no
  default is put in. An attribute outside the whitelist gives \<open>InvalidAttribute\<close>; with a
  whitelisted attribute, an operator outside the whitelist gives \<open>InvalidOperator\<close>; with
  both whitelisted, a value that does not coerce gives \<open>TypeMismatch\<close>; no balanced
  object, or one that does not decode, gives \<open>MalformedJson\<close>. In particular an object
  with attribute \<open>color\<close> gives \<open>InvalidAttribute\<close>.
\<close>

theorem parseCompletion_validates:
  "(\<forall>f. parseCompletion decode raw = Inr f \<longrightarrow>
      (\<exists>src kvs. extractObject raw = Some src \<and> decode src = Some (JObj kvs)
         \<and> objectField kvs ''attribute'' = JStr (attributeName (attribute f))
         \<and> attributeName (attribute f)
             \<in> set [''height'', ''land_use_designation'', ''assessed_value'', ''address'', ''year_of_construction'']
         \<and> objectField kvs ''operator'' = JStr (operatorSymbol (operator f))
         \<and> operatorSymbol (operator f) \<in> set [''>'', ''<'', ''=='', ''contains'']
         \<and> coerce (attribute f) (operator f) (objectField kvs ''value'') = Some (operand f)))
   \<and> (\<forall>src kvs. extractObject raw = Some src \<and> decode src = Some (JObj kvs)
         \<and> (\<forall>a. objectField kvs ''attribute'' = JStr a \<longrightarrow>
                a \<notin> set [''height'', ''land_use_designation'', ''assessed_value'', ''address'', ''year_of_construction''])
         \<longrightarrow> parseCompletion decode raw = Inl InvalidAttribute)
   \<and> (\<forall>src kvs a. extractObject raw = Some src \<and> decode src = Some (JObj kvs)
         \<and> objectField kvs ''attribute'' = JStr a
         \<and> a \<in> set [''height'', ''land_use_designation'', ''assessed_value'', ''address'', ''year_of_construction'']
         \<and> (\<forall>p. objectField kvs ''operator'' = JStr p \<longrightarrow> p \<notin> set [''>'', ''<'', ''=='', ''contains''])
         \<longrightarrow> parseCompletion decode raw = Inl InvalidOperator)
   \<and> (\<forall>src kvs attr oper. extractObject raw = Some src \<and> decode src = Some (JObj kvs)
         \<and> objectField kvs ''attribute'' = JStr (attributeName attr)
         \<and> objectField kvs ''operator'' = JStr (operatorSymbol oper)
         \<and> coerce attr oper (objectField kvs ''value'') = None
         \<longrightarrow> parseCompletion decode raw = Inl TypeMismatch)
   \<and> (extractObject raw = None \<or> (\<exists>src. extractObject raw = Some src \<and> decode src = None)
         \<longrightarrow> parseCompletion decode raw = Inl MalformedJson)
   \<and> (\<forall>src. extractObject raw = Some src
         \<and> decode src = Some (JObj [(''attribute'', JStr ''color''), (''operator'', JStr ''>''), (''value'', JNum 1)])
         \<longrightarrow> parseCompletion decode raw = Inl InvalidAttribute)"
proof -
  have ok: "\<exists>src kvs. extractObject raw = Some src \<and> decode src = Some (JObj kvs)
         \<and> objectField kvs ''attribute'' = JStr (attributeName (attribute f))
         \<and> attributeName (attribute f)
             \<in> set [''height'', ''land_use_designation'', ''assessed_value'', ''address'', ''year_of_construction'']
         \<and> objectField kvs ''operator'' = JStr (operatorSymbol (operator f))
         \<and> operatorSymbol (operator f) \<in> set [''>'', ''<'', ''=='', ''contains'']
         \<and> coerce (attribute f) (operator f) (objectField kvs ''value'') = Some (operand f)"
    if "parseCompletion decode raw = Inr f" for f
  proof -
    from that obtain src kvs where
      "extractObject raw = Some src" "decode src = Some (JObj kvs)" "validateFilter kvs = Inr f"
      by (auto simp: parseCompletion_def split: option.splits json.splits)
    then show ?thesis
      using attributeName_whitelisted [of "attribute f"] operatorSymbol_whitelisted [of "operator f"]
      by (simp only: validateFilter_Inr) blast
  qed
  have attr: "parseCompletion decode raw = Inl InvalidAttribute"
    if "extractObject raw = Some src" "decode src = Some (JObj kvs)"
       "\<forall>a. objectField kvs ''attribute'' = JStr a \<longrightarrow>
                a \<notin> set [''height'', ''land_use_designation'', ''assessed_value'', ''address'', ''year_of_construction'']"
    for src kvs
    using that validateFilter_InvalidAttribute [of kvs] by (simp add: parseCompletion_def)
  have oper: "parseCompletion decode raw = Inl InvalidOperator"
    if "extractObject raw = Some src" "decode src = Some (JObj kvs)"
       "objectField kvs ''attribute'' = JStr a"
       "a \<in> set [''height'', ''land_use_designation'', ''assessed_value'', ''address'', ''year_of_construction'']"
       "\<forall>p. objectField kvs ''operator'' = JStr p \<longrightarrow> p \<notin> set [''>'', ''<'', ''=='', ''contains'']"
    for src kvs a
    using that validateFilter_InvalidOperator [of kvs a] by (simp add: parseCompletion_def)
  have mismatch: "parseCompletion decode raw = Inl TypeMismatch"
    if "extractObject raw = Some src" "decode src = Some (JObj kvs)"
       "objectField kvs ''attribute'' = JStr (attributeName attr)"
       "objectField kvs ''operator'' = JStr (operatorSymbol oper)"
       "coerce attr oper (objectField kvs ''value'') = None"
    for src kvs attr oper
    using that by (simp add: parseCompletion_def validateFilter_def parseAttribute_name
        parseOperator_name)
  have malformed: "parseCompletion decode raw = Inl MalformedJson"
    if "extractObject raw = None \<or> (\<exists>src. extractObject raw = Some src \<and> decode src = None)"
    using that by (auto simp: parseCompletion_def)
  have color: "parseCompletion decode raw = Inl InvalidAttribute"
    if "extractObject raw = Some src"
       "decode src = Some (JObj [(''attribute'', JStr ''color''), (''operator'', JStr ''>''), (''value'', JNum 1)])"
    for src
    using that by (simp add: parseCompletion_def validateFilter_def objectField_def parseAttribute_def
        attributeWhitelist_def)
  from ok attr oper mismatch malformed color show ?thesis by blast
qed

text \<open>
  Five runs, with a decoder that knows the objects of the completions: the spec's
  completion with attribute \<open>color\<close> is rejected as an invalid attribute, the spec's
  completion wrapped in prose gives the filter \<open>height > 100\<close>, an operator \<open>!=\<close> is
  an invalid operator, a height compared with the text \<open>tall\<close> is a type mismatch, and
  prose without an object is malformed.
\<close>

theorem parseCompletion_validates_witness:
  \<open>extractObject ''{"attribute":"color","operator":">","value":1}''
     = Some ''{"attribute":"color","operator":">","value":1}''
   \<and> parseCompletion exampleDecode ''{"attribute":"color","operator":">","value":1}''
     = Inl InvalidAttribute
   \<and> parseCompletion exampleDecode
        ''Here you go: {"attribute":"height","operator":">","value":100} thanks!''
     = Inr \<lparr>attribute = Height, operator = Gt, operand = NumV 100\<rparr>
   \<and> parseCompletion exampleDecode ''{"attribute":"height","operator":"!=","value":100}''
     = Inl InvalidOperator
   \<and> parseCompletion exampleDecode ''{"attribute":"height","operator":">","value":"tall"}''
     = Inl TypeMismatch
   \<and> parseCompletion exampleDecode ''I could not understand the query.'' = Inl MalformedJson\<close>
proof -
  let ?color = \<open>''{"attribute":"color","operator":">","value":1}''\<close>
  let ?prose = \<open>''Here you go: {"attribute":"height","operator":">","value":100} thanks!''\<close>
  let ?height = \<open>''{"attribute":"height","operator":">","value":100}''\<close>
  let ?neq = \<open>''{"attribute":"height","operator":"!=","value":100}''\<close>
  let ?tall = \<open>''{"attribute":"height","operator":">","value":"tall"}''\<close>
  let ?none = "''I could not understand the query.''"
  have x: "extractObject ?color = Some ?color" "extractObject ?prose = Some ?height"
    "extractObject ?neq = Some ?neq" "extractObject ?tall = Some ?tall" "extractObject ?none = None"
    by simp_all
  have d: "exampleDecode ?color
      = Some (JObj [(''attribute'', JStr ''color''), (''operator'', JStr ''>''), (''value'', JNum 1)])"
    "exampleDecode ?height
      = Some (JObj [(''attribute'', JStr ''height''), (''operator'', JStr ''>''), (''value'', JNum 100)])"
    "exampleDecode ?neq
      = Some (JObj [(''attribute'', JStr ''height''), (''operator'', JStr ''!=''), (''value'', JNum 100)])"
    "exampleDecode ?tall
      = Some (JObj [(''attribute'', JStr ''height''), (''operator'', JStr ''>''), (''value'', JStr ''tall'')])"
    by (simp_all add: exampleDecode_def)
  note color = parseCompletion_validates [of exampleDecode ?color,
      THEN conjunct2, THEN conjunct2, THEN conjunct2, THEN conjunct2, THEN conjunct2,
      rule_format, of ?color]
  have 1: "parseCompletion exampleDecode ?color = Inl InvalidAttribute"
    by (rule color) (simp only: x d simp_thms)
  have 2: "parseCompletion exampleDecode ?prose
     = Inr \<lparr>attribute = Height, operator = Gt, operand = NumV 100\<rparr>"
    by (simp add: parseCompletion_def validateFilter_def exampleDecode_def
        parseAttribute_def attributeWhitelist_def parseOperator_def operatorWhitelist_def
        coerce_def expectsNumber_def numericAttribute_def)
  note neq = parseCompletion_validates [of exampleDecode ?neq,
      THEN conjunct2, THEN conjunct2, THEN conjunct1, rule_format,
      of ?neq "[(''attribute'', JStr ''height''), (''operator'', JStr ''!=''), (''value'', JNum 100)]"
         "''height''"]
  have 3: "parseCompletion exampleDecode ?neq = Inl InvalidOperator"
    by (rule neq) (simp add: exampleDecode_def)
  note tall = parseCompletion_validates [of exampleDecode ?tall,
      THEN conjunct2, THEN conjunct2, THEN conjunct2, THEN conjunct1, rule_format,
      of ?tall "[(''attribute'', JStr ''height''), (''operator'', JStr ''>''), (''value'', JStr ''tall'')]"
         Height Gt]
  have 4: "parseCompletion exampleDecode ?tall = Inl TypeMismatch"
    by (rule tall)
       (simp add: exampleDecode_def coerce_def expectsNumber_def numericAttribute_def
          parseNumber_def digitValue_def)
  note none = parseCompletion_validates [of exampleDecode ?none,
      THEN conjunct2, THEN conjunct2, THEN conjunct2, THEN conjunct2, THEN conjunct1, rule_format]
  have 5: "parseCompletion exampleDecode ?none = Inl MalformedJson"
    by (rule none) simp
  from x(1) 1 2 3 4 5 show ?thesis by simp
qed

end
